theory Spec2Isabelle
  imports Main "HOL-Library.Sublist"
begin

section \<open>CommCoreModule: the native module behind the JavaScript bridge\<close>

text \<open>
  A shallow embedding of \<^verbatim>\<open>native/cpp/CommonCpp/NativeModules/CommCoreModule.cpp\<close>.
  Every method of the module becomes a function on an explicit \<open>World\<close>: the state of
  the collaborators the module talks to (persistent store, secure key-value store, crypto
  module, network client) together with a trace of what the method did, in order: the
  tasks it handed to \<^verbatim>\<open>scheduleOrRun\<close>, the collaborator calls it made and
  how each one ended, and the \<^verbatim>\<open>resolve\<close>/\<^verbatim>\<open>reject\<close> calls on its promise.
  The tasks of one method are run in the order in which the method chains them: a task is
  submitted as the last statement of the one before it, so the order is the same whether
  \<^verbatim>\<open>scheduleOrRun\<close> runs the task in place or a worker thread picks it up.
  Interleavings with the tasks of other calls are not modelled.
\<close>

subsection \<open>Exceptions\<close>

text \<open>
  The C++ exceptions that can travel through the module, each with its \<^verbatim>\<open>what()\<close>.
  The module's only handler is \<^verbatim>\<open>catch (std::system_error &e)\<close>.
\<close>

datatype exception =
    system_error string
  | invalid_argument string
  | out_of_range string
  | JSError string
  | runtime_error string

definition bind_ex :: "exception + 'a \<Rightarrow> ('a \<Rightarrow> exception + 'b) \<Rightarrow> exception + 'b" where
  "bind_ex r f = (case r of Inl e \<Rightarrow> Inl e | Inr v \<Rightarrow> f v)"

subsection \<open>JavaScript values as the JSI shows them\<close>

text \<open>
  A \<^verbatim>\<open>jsi::Value\<close>. An array is an object to \<^verbatim>\<open>isObject\<close>/\<^verbatim>\<open>asObject\<close>;
  the number carried by \<open>JSNumber\<close> is never inspected by the module.
\<close>

datatype jsValue =
    JSUndefined
  | JSNull
  | JSBool bool
  | JSNumber int
  | JSString string
  | JSObject "(string \<times> jsValue) list"
  | JSArray "jsValue list"

fun isString :: "jsValue \<Rightarrow> bool" where
  "isString (JSString s) = True"
| "isString v = False"

fun isObject :: "jsValue \<Rightarrow> bool" where
  "isObject (JSObject ps) = True"
| "isObject (JSArray vs) = True"
| "isObject v = False"

fun asString :: "jsValue \<Rightarrow> exception + string" where
  "asString (JSString s) = Inr s"
| "asString v = Inl (JSError ''Value is not a String'')"

fun asObject :: "jsValue \<Rightarrow> exception + jsValue" where
  "asObject (JSObject ps) = Inr (JSObject ps)"
| "asObject (JSArray vs) = Inr (JSArray vs)"
| "asObject v = Inl (JSError ''Value is not an Object'')"

fun asArray :: "jsValue \<Rightarrow> exception + jsValue list" where
  "asArray (JSArray vs) = Inr vs"
| "asArray v = Inl (JSError ''Object is not an array'')"

text \<open>
  \<^verbatim>\<open>getProperty\<close>: a name the object does not have reads as \<^verbatim>\<open>undefined\<close>. None of the
  names the module reads is a property of an array.
\<close>

fun getProperty :: "jsValue \<Rightarrow> string \<Rightarrow> jsValue" where
  "getProperty (JSObject ps) name = (case map_of ps name of Some v \<Rightarrow> v | None \<Rightarrow> JSUndefined)"
| "getProperty v name = JSUndefined"

definition propString :: "jsValue \<Rightarrow> string \<Rightarrow> exception + string" where
  "propString obj name = asString (getProperty obj name)"

text \<open>
  \<^verbatim>\<open>jsi::Array(rt, n)\<close> has \<open>n\<close> elements, all \<^verbatim>\<open>undefined\<close>;
  \<^verbatim>\<open>setValueAtIndex\<close> throws when the index is not below the size.
\<close>

definition newArray :: "nat \<Rightarrow> jsValue list" where
  "newArray n = replicate n JSUndefined"

definition setValueAtIndex :: "jsValue list \<Rightarrow> nat \<Rightarrow> jsValue \<Rightarrow> exception + jsValue list" where
  "setValueAtIndex arr i v =
     (if i < length arr then Inr (arr[i := v]) else Inl (JSError ''index out of bounds''))"

subsection \<open>std::stoi and std::stoll\<close>

text \<open>
  The library functions behind the \<^verbatim>\<open>type\<close>, \<^verbatim>\<open>future_type\<close> and \<^verbatim>\<open>time\<close>
  fields: \<^verbatim>\<open>strtol\<close> in base 10 skips leading white space, reads an optional sign and the
  longest run of digits, and ignores what follows. No digit at all is
  \<^verbatim>\<open>std::invalid_argument\<close>; a value outside the result type is \<^verbatim>\<open>std::out_of_range\<close>.
\<close>

definition isspace :: "char \<Rightarrow> bool" where
  "isspace c \<longleftrightarrow> c \<in> set [CHR 0x20, CHR 0x09, CHR 0x0A, CHR 0x0B, CHR 0x0C, CHR 0x0D]"

definition isdigit :: "char \<Rightarrow> bool" where
  "isdigit c \<longleftrightarrow> c \<in> set ''0123456789''"

definition digits_value :: "string \<Rightarrow> nat" where
  "digits_value ds = foldl (\<lambda>acc c. 10 * acc + (of_char c - 48)) 0 ds"

definition strtol :: "string \<Rightarrow> int option" where
  "strtol str =
     (let s1 = dropWhile isspace str;
          negative = (case s1 of c # r \<Rightarrow> c = CHR ''-'' | [] \<Rightarrow> False);
          s2 = (case s1 of c # r \<Rightarrow> if c = CHR ''-'' \<or> c = CHR ''+'' then r else s1 | [] \<Rightarrow> []);
          ds = takeWhile isdigit s2
      in if ds = [] then None
         else Some (if negative then - int (digits_value ds) else int (digits_value ds)))"

definition stoi :: "string \<Rightarrow> exception + int" where
  "stoi str =
     (case strtol str of
        None \<Rightarrow> Inl (invalid_argument ''stoi'')
      | Some v \<Rightarrow>
          if v < - (2 ^ 31) \<or> 2 ^ 31 - 1 < v then Inl (out_of_range ''stoi'') else Inr v)"

definition stoll :: "string \<Rightarrow> exception + int" where
  "stoll str =
     (case strtol str of
        None \<Rightarrow> Inl (invalid_argument ''stoll'')
      | Some v \<Rightarrow>
          if v < - (2 ^ 63) \<or> 2 ^ 63 - 1 < v then Inl (out_of_range ''stoll'') else Inr v)"

subsection \<open>Records of the store and of the crypto module\<close>

record Draft =
  draft_key :: string
  draft_text :: string

record Message =
  message_id :: string
  local_id :: "string option"
  thread :: string
  user :: string
  message_type :: int
  future_type :: "int option"
  content :: "string option"
  time :: int

record Media =
  media_id :: string
  media_container :: string
  media_thread :: string
  media_uri :: string
  media_type :: string
  media_extras :: string

record OlmPersistSession =
  target_user_id :: string
  session_data :: string

text \<open>
  \<^verbatim>\<open>crypto::Persist\<close>: the account buffer and the sessions keyed by peer. The sessions
  are a \<^verbatim>\<open>std::unordered_map\<close>, held here as an association list with one entry per key
  (its \<^verbatim>\<open>insert\<close> keeps an entry that is already there); the module never looks at the
  order of the entries.
\<close>

record Persist =
  account :: string
  sessions :: "(string \<times> string) list"

definition emptyPersist :: Persist where
  "emptyPersist = \<lparr>account = [], sessions = []\<rparr>"

text \<open>
  Modelled from the spec: \<^verbatim>\<open>Persist::isEmpty\<close> (declared in crypto/Persist.h, which is not
  among the sources). The bootstrap branches "on whether loaded state is empty", and the
  loaded state is non-empty exactly when an account blob with content was read.
\<close>

definition isEmpty :: "Persist \<Rightarrow> bool" where
  "isEmpty p \<longleftrightarrow> account p = []"

datatype MessageStoreOperation =
    RemoveMessagesOperation "string list"
  | RemoveMessagesForThreadsOperation "string list"
  | ReplaceMessageOperation Message "Media list"
  | RekeyMessageOperation string string

subsection \<open>The network client\<close>

datatype ChannelCredentials = SslCredentials | InsecureChannelCredentials

record Client =
  client_host :: string
  client_port :: string
  client_credentials :: ChannelCredentials
  client_userId :: string
  client_deviceToken :: string

subsection \<open>The world of the module and the trace of a call\<close>

datatype WorkerThread = databaseThread | cryptoThread | networkThread

datatype settlement = resolve jsValue | reject string

text \<open>The calls on \<^verbatim>\<open>DatabaseManager::getQueryExecutor()\<close> that the module makes.\<close>

datatype storeCall =
    call_getDraft string
  | call_updateDraft string string
  | call_moveDraft string string
  | call_getAllDrafts
  | call_removeAllDrafts
  | call_removeAllMessages
  | call_getAllMessages
  | call_beginTransaction
  | call_execute MessageStoreOperation
  | call_commitTransaction
  | call_getOlmPersistAccountData
  | call_getOlmPersistSessionsData
  | call_storeOlmPersistData Persist

text \<open>The calls on \<^verbatim>\<open>crypto::CryptoModule\<close>: its constructor and four methods.\<close>

datatype cryptoCall =
    call_CryptoModule string string Persist
  | call_storeAsB64 string
  | call_restoreFromB64 string Persist
  | call_getIdentityKeys
  | call_getOneTimeKeys

text \<open>
  One entry of the trace. A collaborator call is logged with the exception it threw, if
  any; \<open>Uncaught e\<close> marks an exception that left a task through no handler, after which
  the task does nothing more; \<open>Fault\<close> marks a read through a dangling reference on which
  the process ended.
\<close>

datatype event =
    Submit WorkerThread
  | Store storeCall "exception option"
  | Crypto cryptoCall "exception option"
  | SecureGet string "string option"
  | SecureSet string string
  | GenerateRandomString nat
  | Settle settlement
  | Uncaught exception
  | Fault

text \<open>
  Modelled from the spec: the secure store (\<^verbatim>\<open>this->secureStore\<close>, whose class is not
  among the sources) is the key-value store of the spec's external interfaces,
  \<^verbatim>\<open>get(key) -> optional<string>\<close> and \<^verbatim>\<open>set(key, value)\<close>, held as a map. The key
  under which the module keeps the secret, \<^verbatim>\<open>secureStoreAccountDataKey\<close>, is a member
  whose value is not among the sources either; it is a field of the world.
\<close>

record ('db, 'cm) World =
  database :: 'db
  secureStore :: "string \<rightharpoonup> string"
  secureStoreAccountDataKey :: string
  cryptoModule :: "'cm option"
  networkClient :: "Client option"
  trace :: "event list"

text \<open>
  The collaborators whose code is not part of the module are parameters. A call takes the
  collaborator's state and gives the state after it with either the value returned or the
  exception thrown.
\<close>

record 'db QueryExecutor =
  qe_getDraft :: "string \<Rightarrow> 'db \<Rightarrow> (exception + string) \<times> 'db"
  qe_updateDraft :: "string \<Rightarrow> string \<Rightarrow> 'db \<Rightarrow> (exception + unit) \<times> 'db"
  qe_moveDraft :: "string \<Rightarrow> string \<Rightarrow> 'db \<Rightarrow> (exception + bool) \<times> 'db"
  qe_getAllDrafts :: "'db \<Rightarrow> (exception + Draft list) \<times> 'db"
  qe_removeAllDrafts :: "'db \<Rightarrow> (exception + unit) \<times> 'db"
  qe_removeAllMessages :: "'db \<Rightarrow> (exception + unit) \<times> 'db"
  qe_getAllMessages :: "'db \<Rightarrow> (exception + Message list) \<times> 'db"
  qe_beginTransaction :: "'db \<Rightarrow> (exception + unit) \<times> 'db"
  qe_execute :: "MessageStoreOperation \<Rightarrow> 'db \<Rightarrow> (exception + unit) \<times> 'db"
  qe_commitTransaction :: "'db \<Rightarrow> (exception + unit) \<times> 'db"
  qe_getOlmPersistAccountData :: "'db \<Rightarrow> (exception + string option) \<times> 'db"
  qe_getOlmPersistSessionsData :: "'db \<Rightarrow> (exception + OlmPersistSession list) \<times> 'db"
  qe_storeOlmPersistData :: "Persist \<Rightarrow> 'db \<Rightarrow> (exception + unit) \<times> 'db"

record 'cm CryptoLib =
  cm_CryptoModule :: "string \<Rightarrow> string \<Rightarrow> Persist \<Rightarrow> exception + 'cm"
  cm_storeAsB64 :: "string \<Rightarrow> 'cm \<Rightarrow> (exception + Persist) \<times> 'cm"
  cm_restoreFromB64 :: "string \<Rightarrow> Persist \<Rightarrow> 'cm \<Rightarrow> (exception + unit) \<times> 'cm"
  cm_getIdentityKeys :: "'cm \<Rightarrow> (exception + string) \<times> 'cm"
  cm_getOneTimeKeys :: "'cm \<Rightarrow> (exception + string) \<times> 'cm"

definition emit :: "event \<Rightarrow> ('db, 'cm) World \<Rightarrow> ('db, 'cm) World" where
  "emit e w = w\<lparr>trace := trace w @ [e]\<rparr>"

definition thrown :: "exception + 'a \<Rightarrow> exception option" where
  "thrown r = (case r of Inl e \<Rightarrow> Some e | Inr v \<Rightarrow> None)"

definition callStore ::
  "storeCall \<Rightarrow> ('db \<Rightarrow> (exception + 'a) \<times> 'db) \<Rightarrow> ('db, 'cm) World
     \<Rightarrow> (exception + 'a) \<times> ('db, 'cm) World" where
  "callStore c f w =
     (let (r, db') = f (database w)
      in (r, emit (Store c (thrown r)) (w\<lparr>database := db'\<rparr>)))"

definition callCrypto ::
  "cryptoCall \<Rightarrow> ('cm \<Rightarrow> (exception + 'a) \<times> 'cm) \<Rightarrow> 'cm \<Rightarrow> ('db, 'cm) World
     \<Rightarrow> (exception + 'a) \<times> ('db, 'cm) World" where
  "callCrypto c f m w =
     (let (r, m') = f m
      in (r, emit (Crypto c (thrown r)) (w\<lparr>cryptoModule := Some m'\<rparr>)))"

text \<open>
  The lambda every task hands to \<^verbatim>\<open>jsInvoker_->invokeAsync\<close>:
  \<^verbatim>\<open>if (error.size()) { promise->reject(error); return; } promise->resolve(value);\<close>
\<close>

definition settlePromise :: "string \<Rightarrow> jsValue \<Rightarrow> ('db, 'cm) World \<Rightarrow> ('db, 'cm) World" where
  "settlePromise error v w =
     (if length error \<noteq> 0 then emit (Settle (reject error)) w else emit (Settle (resolve v)) w)"

text \<open>
  \<^verbatim>\<open>std::string error; try { result = ...; } catch (std::system_error &e) { error = e.what(); }\<close>
  followed by the rest of the task. When the call throws, the result variable keeps the
  value \<open>initial\<close> it had before the try; any other exception leaves the task.
\<close>

definition tryCatch ::
  "exception + 'a \<Rightarrow> 'a \<Rightarrow> (string \<Rightarrow> 'a \<Rightarrow> ('db, 'cm) World \<Rightarrow> ('db, 'cm) World)
     \<Rightarrow> ('db, 'cm) World \<Rightarrow> ('db, 'cm) World" where
  "tryCatch r initial rest w =
     (case r of
        Inr v \<Rightarrow> rest [] v w
      | Inl (system_error what) \<Rightarrow> rest what initial w
      | Inl e \<Rightarrow> emit (Uncaught e) w)"

subsection \<open>Drafts\<close>




definition jsiDraft :: "Draft \<Rightarrow> jsValue" where
  "jsiDraft draft =
     JSObject [(''key'', JSString (draft_key draft)), (''text'', JSString (draft_text draft))]"

text \<open>The loop of \<^verbatim>\<open>getAllDrafts\<close> that fills the array, with its \<^verbatim>\<open>writeIndex\<close>.\<close>

fun fillDrafts :: "Draft list \<Rightarrow> nat \<Rightarrow> jsValue list \<Rightarrow> exception + jsValue list" where
  "fillDrafts [] writeIndex jsiDrafts = Inr jsiDrafts"
| "fillDrafts (draft # rest) writeIndex jsiDrafts =
     (if draft_text draft = [] then fillDrafts rest writeIndex jsiDrafts
      else case setValueAtIndex jsiDrafts writeIndex (jsiDraft draft) of
             Inl e \<Rightarrow> Inl e
           | Inr jsiDrafts' \<Rightarrow> fillDrafts rest (Suc writeIndex) jsiDrafts')"

text \<open>
  \<^verbatim>\<open>numDrafts\<close> is declared without a value and assigned inside the try, after the read:
  \<open>indeterminate\<close> is what it holds when the read threw.
\<close>

definition getAllDrafts ::
  "'db QueryExecutor \<Rightarrow> nat \<Rightarrow> ('db, 'cm) World \<Rightarrow> ('db, 'cm) World" where
  "getAllDrafts qe indeterminate w =
     (let w1 = emit (Submit databaseThread) w;
          (r, w2) = callStore call_getAllDrafts (qe_getAllDrafts qe) w1;
          counted = (case r of
                       Inl e \<Rightarrow> Inl e
                     | Inr draftsVector \<Rightarrow>
                         Inr (draftsVector,
                              length (filter (\<lambda>draft. draft_text draft \<noteq> []) draftsVector)))
      in tryCatch counted ([], indeterminate)
           (\<lambda>error (draftsVector, numDrafts) w3.
              if length error \<noteq> 0 then emit (Settle (reject error)) w3
              else case fillDrafts draftsVector 0 (newArray numDrafts) of
                     Inl e \<Rightarrow> emit (Uncaught e) w3
                   | Inr jsiDrafts \<Rightarrow> emit (Settle (resolve (JSArray jsiDrafts))) w3) w2)"


subsection \<open>Messages\<close>








subsection \<open>processMessageStoreOperations: reading the caller's operations\<close>

definition REKEY_OPERATION :: string where "REKEY_OPERATION = ''rekey''"
definition REMOVE_OPERATION :: string where "REMOVE_OPERATION = ''remove''"
definition REPLACE_OPERATION :: string where "REPLACE_OPERATION = ''replace''"
definition REMOVE_MSGS_FOR_THREADS_OPERATION :: string where
  "REMOVE_MSGS_FOR_THREADS_OPERATION = ''remove_messages_for_threads''"

text \<open>The loops that collect \<^verbatim>\<open>ids\<close> and \<^verbatim>\<open>threadIDs\<close>: every element \<^verbatim>\<open>asString\<close>.\<close>

fun asStrings :: "jsValue list \<Rightarrow> exception + string list" where
  "asStrings [] = Inr []"
| "asStrings (v # vs) =
     bind_ex (asString v) (\<lambda>s. bind_ex (asStrings vs) (\<lambda>ss. Inr (s # ss)))"

definition parseRemove :: "jsValue \<Rightarrow> exception + MessageStoreOperation" where
  "parseRemove op =
     bind_ex (asObject (getProperty op ''payload'')) (\<lambda>payload_obj.
     bind_ex (bind_ex (asObject (getProperty payload_obj ''ids'')) asArray) (\<lambda>msg_ids.
     bind_ex (asStrings msg_ids) (\<lambda>removed_msg_ids.
     Inr (RemoveMessagesOperation removed_msg_ids))))"

definition parseRemoveMessagesForThreads :: "jsValue \<Rightarrow> exception + MessageStoreOperation" where
  "parseRemoveMessagesForThreads op =
     bind_ex (asObject (getProperty op ''payload'')) (\<lambda>payload_obj.
     bind_ex (bind_ex (asObject (getProperty payload_obj ''threadIDs'')) asArray) (\<lambda>thread_ids.
     bind_ex (asStrings thread_ids) (\<lambda>threads_to_remove_msgs_from.
     Inr (RemoveMessagesForThreadsOperation threads_to_remove_msgs_from))))"

definition parseMedia :: "string \<Rightarrow> string \<Rightarrow> jsValue \<Rightarrow> exception + Media" where
  "parseMedia msg_id thread_id v =
     bind_ex (asObject v) (\<lambda>media_info.
     bind_ex (propString media_info ''id'') (\<lambda>media_id.
     bind_ex (propString media_info ''uri'') (\<lambda>media_uri.
     bind_ex (propString media_info ''type'') (\<lambda>media_type.
     bind_ex (propString media_info ''extras'') (\<lambda>media_extras.
     Inr \<lparr>media_id = media_id, media_container = msg_id, media_thread = thread_id,
          media_uri = media_uri, media_type = media_type, media_extras = media_extras\<rparr>)))))"

fun parseMediaInfos :: "string \<Rightarrow> string \<Rightarrow> jsValue list \<Rightarrow> exception + Media list" where
  "parseMediaInfos msg_id thread_id [] = Inr []"
| "parseMediaInfos msg_id thread_id (v # vs) =
     bind_ex (parseMedia msg_id thread_id v) (\<lambda>media.
     bind_ex (parseMediaInfos msg_id thread_id vs) (\<lambda>media_vector. Inr (media # media_vector)))"

fun optionalString :: "jsValue \<Rightarrow> string option" where
  "optionalString (JSString s) = Some s"
| "optionalString v = None"

definition parseReplace :: "jsValue \<Rightarrow> exception + MessageStoreOperation" where
  "parseReplace op =
     bind_ex (asObject (getProperty op ''payload'')) (\<lambda>msg_obj.
     bind_ex (propString msg_obj ''id'') (\<lambda>msg_id.
     let local_id = optionalString (getProperty msg_obj ''local_id'') in
     bind_ex (propString msg_obj ''thread'') (\<lambda>thread_id.
     bind_ex (propString msg_obj ''user'') (\<lambda>user_id.
     bind_ex (bind_ex (propString msg_obj ''type'') stoi) (\<lambda>type.
     bind_ex (case getProperty msg_obj ''future_type'' of
                JSString s \<Rightarrow> bind_ex (stoi s) (\<lambda>n. Inr (Some n))
              | v \<Rightarrow> Inr None) (\<lambda>future_type.
     let content = optionalString (getProperty msg_obj ''content'') in
     bind_ex (bind_ex (propString msg_obj ''time'') stoll) (\<lambda>time.
     let message = \<lparr>message_id = msg_id, local_id = local_id, thread = thread_id,
                    user = user_id, message_type = type, future_type = future_type,
                    content = content, time = time\<rparr> in
     bind_ex (if isObject (getProperty msg_obj ''media_infos'')
              then bind_ex (bind_ex (asObject (getProperty msg_obj ''media_infos'')) asArray)
                     (parseMediaInfos msg_id thread_id)
              else Inr []) (\<lambda>media_vector.
     Inr (ReplaceMessageOperation message media_vector)))))))))"

definition parseRekey :: "jsValue \<Rightarrow> exception + MessageStoreOperation" where
  "parseRekey op =
     bind_ex (asObject (getProperty op ''payload'')) (\<lambda>rekey_payload.
     bind_ex (propString rekey_payload ''from'') (\<lambda>from.
     bind_ex (propString rekey_payload ''to'') (\<lambda>to.
     Inr (RekeyMessageOperation from to))))"

text \<open>
  The first loop of \<^verbatim>\<open>processMessageStoreOperations\<close>, on the caller's thread. It ends in
  one of three ways: an exception thrown by a conversion (\<open>Inl\<close>), the \<^verbatim>\<open>return\<close> in the
  \<^verbatim>\<open>else\<close> branch at the first operation whose type is none of the four
  (\<open>Inr (Inl op_type)\<close>), or the end of the array with every operation built
  (\<open>Inr (Inr messageStoreOps)\<close>).
\<close>

fun parseOperations ::
  "jsValue list \<Rightarrow> MessageStoreOperation list
     \<Rightarrow> exception + (string + MessageStoreOperation list)" where
  "parseOperations [] messageStoreOps = Inr (Inr messageStoreOps)"
| "parseOperations (v # vs) messageStoreOps =
     bind_ex (asObject v) (\<lambda>op.
     bind_ex (propString op ''type'') (\<lambda>op_type.
       if op_type = REMOVE_OPERATION then
         bind_ex (parseRemove op) (\<lambda>x. parseOperations vs (messageStoreOps @ [x]))
       else if op_type = REMOVE_MSGS_FOR_THREADS_OPERATION then
         bind_ex (parseRemoveMessagesForThreads op)
           (\<lambda>x. parseOperations vs (messageStoreOps @ [x]))
       else if op_type = REPLACE_OPERATION then
         bind_ex (parseReplace op) (\<lambda>x. parseOperations vs (messageStoreOps @ [x]))
       else if op_type = REKEY_OPERATION then
         bind_ex (parseRekey op) (\<lambda>x. parseOperations vs (messageStoreOps @ [x]))
       else Inr (Inl op_type)))"

subsection \<open>processMessageStoreOperations: the task on the database thread\<close>

text \<open>
  \<^verbatim>\<open>for (const auto &operation : messageStoreOps) { operation->execute(); }\<close>: the loop
  stops at the first \<^verbatim>\<open>execute\<close> that throws.
\<close>

fun executeAll ::
  "'db QueryExecutor \<Rightarrow> MessageStoreOperation list \<Rightarrow> ('db, 'cm) World
     \<Rightarrow> exception option \<times> ('db, 'cm) World" where
  "executeAll qe [] w = (None, w)"
| "executeAll qe (operation # rest) w =
     (case callStore (call_execute operation) (qe_execute qe operation) w of
        (Inl e, w') \<Rightarrow> (Some e, w')
      | (Inr u, w') \<Rightarrow> executeAll qe rest w')"

text \<open>The body of the try block: begin, every execute, commit.\<close>

definition transaction ::
  "'db QueryExecutor \<Rightarrow> MessageStoreOperation list \<Rightarrow> ('db, 'cm) World
     \<Rightarrow> (exception + unit) \<times> ('db, 'cm) World" where
  "transaction qe messageStoreOps w =
     (case callStore call_beginTransaction (qe_beginTransaction qe) w of
        (Inl e, w1) \<Rightarrow> (Inl e, w1)
      | (Inr u, w1) \<Rightarrow>
          (case executeAll qe messageStoreOps w1 of
             (Some e, w2) \<Rightarrow> (Inl e, w2)
           | (None, w2) \<Rightarrow> callStore call_commitTransaction (qe_commitTransaction qe) w2))"

definition processMessageStoreOperations ::
  "'db QueryExecutor \<Rightarrow> jsValue list \<Rightarrow> ('db, 'cm) World
     \<Rightarrow> exception option \<times> ('db, 'cm) World" where
  "processMessageStoreOperations qe operations w =
     (case parseOperations operations [] of
        Inl e \<Rightarrow> (Some e, w)
      | Inr (Inl op_type) \<Rightarrow>
          (None, emit (Settle (reject (''unsupported operation: '' @ op_type))) w)
      | Inr (Inr messageStoreOps) \<Rightarrow>
          (let w1 = emit (Submit databaseThread) w;
               (r, w2) = transaction qe messageStoreOps w1
           in (None, tryCatch r () (\<lambda>error u. settlePromise error JSUndefined) w2)))"

subsection \<open>The crypto account\<close>

text \<open>The loop that copies the stored sessions into \<^verbatim>\<open>persist.sessions\<close>.\<close>

fun insertSessions :: "OlmPersistSession list \<Rightarrow> Persist \<Rightarrow> Persist" where
  "insertSessions [] persist = persist"
| "insertSessions (sessionsDataItem # rest) persist =
     insertSessions rest
       (if map_of (sessions persist) (target_user_id sessionsDataItem) = None
        then persist\<lparr>sessions :=
               sessions persist
                 @ [(target_user_id sessionsDataItem, session_data sessionsDataItem)]\<rparr>
        else persist)"

text \<open>
  The try block of the first task: what it leaves in \<^verbatim>\<open>persist\<close>, and the exception that
  ended it, if one did. The account is assigned before the sessions are read.
\<close>

definition loadPersist ::
  "'db QueryExecutor \<Rightarrow> ('db, 'cm) World \<Rightarrow> (exception option \<times> Persist) \<times> ('db, 'cm) World" where
  "loadPersist qe w =
     (case callStore call_getOlmPersistAccountData (qe_getOlmPersistAccountData qe) w of
        (Inl e, w1) \<Rightarrow> ((Some e, emptyPersist), w1)
      | (Inr None, w1) \<Rightarrow> ((None, emptyPersist), w1)
      | (Inr (Some accountData), w1) \<Rightarrow>
          (let persist = emptyPersist\<lparr>account := accountData\<rparr>
           in case callStore call_getOlmPersistSessionsData
                     (qe_getOlmPersistSessionsData qe) w1 of
                (Inl e, w2) \<Rightarrow> ((Some e, persist), w2)
              | (Inr sessionsData, w2) \<Rightarrow> ((None, insertSessions sessionsData persist), w2)))"

text \<open>The innermost task, on the database thread: store what the fresh module serialized.\<close>

definition storeNewPersist ::
  "'db QueryExecutor \<Rightarrow> Persist \<Rightarrow> ('db, 'cm) World \<Rightarrow> ('db, 'cm) World" where
  "storeNewPersist qe newPersist w =
     (let (r, w1) = callStore (call_storeOlmPersistData newPersist)
                      (qe_storeOlmPersistData qe newPersist) w
      in tryCatch r () (\<lambda>error u. settlePromise error JSUndefined) w1)"

text \<open>
  The task on the crypto thread. It captures the \<^verbatim>\<open>error\<close> of the first task
  (\<open>loadError\<close>) and declares a \<^verbatim>\<open>std::string error\<close> of its own, which is the one its
  \<^verbatim>\<open>invokeAsync\<close> lambda tests. None of the calls it makes is inside a try block.
\<close>

definition cryptoTask ::
  "'db QueryExecutor \<Rightarrow> 'cm CryptoLib \<Rightarrow> string \<Rightarrow> string \<Rightarrow> Persist \<Rightarrow> string
     \<Rightarrow> ('db, 'cm) World \<Rightarrow> ('db, 'cm) World" where
  "cryptoTask qe cl userIdStr storedSecretKey persist loadError w =
     (let error = [];
          made = cm_CryptoModule cl userIdStr storedSecretKey persist;
          w1 = emit (Crypto (call_CryptoModule userIdStr storedSecretKey persist) (thrown made)) w
      in case made of
           Inl e \<Rightarrow> emit (Uncaught e) w1
         | Inr m \<Rightarrow>
             (let w2 = w1\<lparr>cryptoModule := Some m\<rparr>
              in if isEmpty persist then
                   (case callCrypto (call_storeAsB64 storedSecretKey)
                           (cm_storeAsB64 cl storedSecretKey) m w2 of
                      (Inl e, w3) \<Rightarrow> emit (Uncaught e) w3
                    | (Inr newPersist, w3) \<Rightarrow>
                        storeNewPersist qe newPersist (emit (Submit databaseThread) w3))
                 else
                   (case callCrypto (call_restoreFromB64 storedSecretKey persist)
                           (cm_restoreFromB64 cl storedSecretKey persist) m w2 of
                      (Inl e, w3) \<Rightarrow> emit (Uncaught e) w3
                    | (Inr u, w3) \<Rightarrow> settlePromise error JSUndefined w3)))"

text \<open>The first task, on the database thread: load, then hand over to the crypto thread.\<close>

definition loadTask ::
  "'db QueryExecutor \<Rightarrow> 'cm CryptoLib \<Rightarrow> string \<Rightarrow> string
     \<Rightarrow> ('db, 'cm) World \<Rightarrow> ('db, 'cm) World" where
  "loadTask qe cl userIdStr storedSecretKey w =
     (let ((ex, persist), w1) = loadPersist qe w
      in case ex of
           None \<Rightarrow>
             cryptoTask qe cl userIdStr storedSecretKey persist []
               (emit (Submit cryptoThread) w1)
         | Some (system_error what) \<Rightarrow>
             cryptoTask qe cl userIdStr storedSecretKey persist what
               (emit (Submit cryptoThread) w1)
         | Some e \<Rightarrow> emit (Uncaught e) w1)"

text \<open>
  The part of \<^verbatim>\<open>initializeCryptoAccount\<close> that runs on the caller's thread: read the secret
  key, or generate and store one. \<open>generated\<close> is the string
  \<^verbatim>\<open>crypto::Tools::generateRandomString(64)\<close> returns if it is called.
\<close>

definition readOrGenerateSecretKey ::
  "string \<Rightarrow> ('db, 'cm) World \<Rightarrow> string \<times> ('db, 'cm) World" where
  "readOrGenerateSecretKey generated w =
     (let k = secureStoreAccountDataKey w;
          storedSecretKey = secureStore w k;
          w1 = emit (SecureGet k storedSecretKey) w
      in case storedSecretKey of
           Some v \<Rightarrow> (v, w1)
         | None \<Rightarrow>
             (generated,
              emit (SecureSet k generated)
                ((emit (GenerateRandomString 64) w1)
                   \<lparr>secureStore := (secureStore w1)(k \<mapsto> generated)\<rparr>)))"

definition initializeCryptoAccount ::
  "'db QueryExecutor \<Rightarrow> 'cm CryptoLib \<Rightarrow> string \<Rightarrow> string
     \<Rightarrow> ('db, 'cm) World \<Rightarrow> ('db, 'cm) World" where
  "initializeCryptoAccount qe cl generated userIdStr w =
     (let (storedSecretKey, w1) = readOrGenerateSecretKey generated w
      in loadTask qe cl userIdStr storedSecretKey (emit (Submit databaseThread) w1))"

definition getUserPublicKey :: "'cm CryptoLib \<Rightarrow> ('db, 'cm) World \<Rightarrow> ('db, 'cm) World" where
  "getUserPublicKey cl w =
     (let w1 = emit (Submit cryptoThread) w
      in case cryptoModule w1 of
           None \<Rightarrow> settlePromise ''user has not been initialized'' (JSString []) w1
         | Some m \<Rightarrow>
             (case callCrypto call_getIdentityKeys (cm_getIdentityKeys cl) m w1 of
                (Inl e, w2) \<Rightarrow> emit (Uncaught e) w2
              | (Inr result, w2) \<Rightarrow> settlePromise [] (JSString result) w2))"

definition getUserOneTimeKeys :: "'cm CryptoLib \<Rightarrow> ('db, 'cm) World \<Rightarrow> ('db, 'cm) World" where
  "getUserOneTimeKeys cl w =
     (let w1 = emit (Submit cryptoThread) w
      in case cryptoModule w1 of
           None \<Rightarrow> settlePromise ''user has not been initialized'' (JSString []) w1
         | Some m \<Rightarrow>
             (case callCrypto call_getOneTimeKeys (cm_getOneTimeKeys cl) m w1 of
                (Inl e, w2) \<Rightarrow> emit (Uncaught e) w2
              | (Inr result, w2) \<Rightarrow> settlePromise [] (JSString result) w2))"

subsection \<open>The network module\<close>

definition initializeNetworkModule ::
  "string \<Rightarrow> string \<Rightarrow> string \<Rightarrow> ('db, 'cm) World \<Rightarrow> ('db, 'cm) World" where
  "initializeNetworkModule userId deviceToken hostname w =
     (let host = (if length hostname = 0 then ''localhost'' else hostname);
          credentials = (if take 5 host = ''https'' then SslCredentials
                         else InsecureChannelCredentials)
      in w\<lparr>networkClient :=
             Some \<lparr>client_host = host, client_port = ''50051'',
                   client_credentials = credentials, client_userId = userId,
                   client_deviceToken = deviceToken\<rparr>\<rparr>)"

subsection \<open>The public operations that return a promise\<close>



subsection \<open>Reading a trace\<close>

fun settlementsOf :: "event list \<Rightarrow> settlement list" where
  "settlementsOf [] = []"
| "settlementsOf (ev # evs) = (case ev of Settle s \<Rightarrow> [s] | _ \<Rightarrow> []) @ settlementsOf evs"

fun uncaughtOf :: "event list \<Rightarrow> exception list" where
  "uncaughtOf [] = []"
| "uncaughtOf (ev # evs) = (case ev of Uncaught e \<Rightarrow> [e] | _ \<Rightarrow> []) @ uncaughtOf evs"

fun submittedOf :: "event list \<Rightarrow> WorkerThread list" where
  "submittedOf [] = []"
| "submittedOf (ev # evs) = (case ev of Submit t \<Rightarrow> [t] | _ \<Rightarrow> []) @ submittedOf evs"

fun storeCallsOf :: "event list \<Rightarrow> (storeCall \<times> exception option) list" where
  "storeCallsOf [] = []"
| "storeCallsOf (ev # evs) = (case ev of Store c r \<Rightarrow> [(c, r)] | _ \<Rightarrow> []) @ storeCallsOf evs"

fun cryptoCallsOf :: "event list \<Rightarrow> (cryptoCall \<times> exception option) list" where
  "cryptoCallsOf [] = []"
| "cryptoCallsOf (ev # evs) = (case ev of Crypto c r \<Rightarrow> [(c, r)] | _ \<Rightarrow> []) @ cryptoCallsOf evs"

fun secureStoreCallsOf :: "event list \<Rightarrow> event list" where
  "secureStoreCallsOf [] = []"
| "secureStoreCallsOf (ev # evs) =
     (case ev of
        SecureGet k v \<Rightarrow> [ev]
      | SecureSet k v \<Rightarrow> [ev]
      | GenerateRandomString n \<Rightarrow> [ev]
      | _ \<Rightarrow> []) @ secureStoreCallsOf evs"

text \<open>
  Every collaborator call of the trace either returned or, if it was a call on the store,
  threw \<^verbatim>\<open>std::system_error\<close>, the store-level error of the external interfaces.
\<close>

definition onlyStoreErrors :: "event list \<Rightarrow> bool" where
  "onlyStoreErrors evs \<longleftrightarrow>
     (\<forall>(c, r) \<in> set (storeCallsOf evs). r = None \<or> (\<exists>what. r = Some (system_error what)))
     \<and> (\<forall>(c, r) \<in> set (cryptoCallsOf evs). r = None)"

text \<open>
  How a call ended, read off the events it added: it settled its promise at most once;
  exactly one of these happened: the promise was settled, an exception left a task
  uncaught, an exception was thrown to the caller; and an exception left a task only if a
  collaborator threw something that is not a store error.
\<close>

definition endsOnce :: "exception option \<Rightarrow> event list \<Rightarrow> bool" where
  "endsOnce thrownToCaller new \<longleftrightarrow>
     length (settlementsOf new) + length (uncaughtOf new)
       + (case thrownToCaller of None \<Rightarrow> 0 | Some e \<Rightarrow> 1) = 1
     \<and> (thrownToCaller \<noteq> None \<longrightarrow> new = [])
     \<and> (onlyStoreErrors new \<longrightarrow> uncaughtOf new = [])"

subsection \<open>The operation an element of the caller's array describes\<close>



subsection \<open>Stand-ins for the collaborators\<close>

text \<open>
  Modelled from the spec: the persistent store behind \<^verbatim>\<open>DatabaseManager::getQueryExecutor()\<close>,
  whose code is not among the sources. It is the store of the spec's external interfaces:
  \<^verbatim>\<open>beginTransaction()\<close>, \<^verbatim>\<open>commitTransaction()\<close> and the reads and writes per record
  kind, where "each call may fail with a store-level error" and there are "no implicit
  transactions". A write changes the tables at once; the calls named in \<open>failing\<close> throw
  \<^verbatim>\<open>std::system_error\<close> and change nothing. The theorems below hold for every
  \<open>QueryExecutor\<close>; this one supplies their concrete instances.
\<close>

record SimpleDb =
  db_drafts :: "Draft list"
  db_messages :: "Message list"
  db_media :: "Media list"
  db_olm_account :: "string option"
  db_olm_sessions :: "OlmPersistSession list"
  db_in_transaction :: bool

definition storeCallOf ::
  "string list \<Rightarrow> string \<Rightarrow> (SimpleDb \<Rightarrow> 'a \<times> SimpleDb) \<Rightarrow> SimpleDb
     \<Rightarrow> (exception + 'a) \<times> SimpleDb" where
  "storeCallOf failing name f db =
     (if name \<in> set failing then (Inl (system_error (name @ '' failed'')), db)
      else (let (v, db') = f db in (Inr v, db')))"

fun simpleExecute :: "MessageStoreOperation \<Rightarrow> SimpleDb \<Rightarrow> unit \<times> SimpleDb" where
  "simpleExecute (RemoveMessagesOperation ids) db =
     ((), db\<lparr>db_messages := filter (\<lambda>m. message_id m \<notin> set ids) (db_messages db)\<rparr>)"
| "simpleExecute (RemoveMessagesForThreadsOperation threadIDs) db =
     ((), db\<lparr>db_messages := filter (\<lambda>m. thread m \<notin> set threadIDs) (db_messages db)\<rparr>)"
| "simpleExecute (ReplaceMessageOperation message media_vector) db =
     ((), db\<lparr>db_messages :=
               filter (\<lambda>m. message_id m \<noteq> message_id message) (db_messages db) @ [message],
             db_media :=
               filter (\<lambda>m. media_container m \<noteq> message_id message) (db_media db)
                 @ media_vector\<rparr>)"
| "simpleExecute (RekeyMessageOperation from to) db =
     ((), db\<lparr>db_messages :=
               map (\<lambda>m. if message_id m = from then m\<lparr>message_id := to\<rparr> else m)
                 (db_messages db)\<rparr>)"

fun operationName :: "MessageStoreOperation \<Rightarrow> string" where
  "operationName (RemoveMessagesOperation ids) = ''removeMessages''"
| "operationName (RemoveMessagesForThreadsOperation threadIDs) = ''removeMessagesForThreads''"
| "operationName (ReplaceMessageOperation message media_vector) = ''replaceMessage''"
| "operationName (RekeyMessageOperation from to) = ''rekeyMessage''"

definition simpleExecutor :: "string list \<Rightarrow> SimpleDb QueryExecutor" where
  "simpleExecutor failing =
     \<lparr>qe_getDraft = (\<lambda>k. storeCallOf failing ''getDraft''
          (\<lambda>db. (case filter (\<lambda>d. draft_key d = k) (db_drafts db) of
                    [] \<Rightarrow> [] | d # ds \<Rightarrow> draft_text d, db))),
      qe_updateDraft = (\<lambda>k t. storeCallOf failing ''updateDraft''
          (\<lambda>db. ((), db\<lparr>db_drafts := filter (\<lambda>d. draft_key d \<noteq> k) (db_drafts db)
                                        @ [\<lparr>draft_key = k, draft_text = t\<rparr>]\<rparr>))),
      qe_moveDraft = (\<lambda>old new. storeCallOf failing ''moveDraft''
          (\<lambda>db. (case filter (\<lambda>d. draft_key d = old) (db_drafts db) of
                    [] \<Rightarrow> (False, db)
                  | d # ds \<Rightarrow>
                      (True, db\<lparr>db_drafts :=
                                  filter (\<lambda>d. draft_key d \<noteq> old \<and> draft_key d \<noteq> new)
                                    (db_drafts db)
                                  @ [\<lparr>draft_key = new, draft_text = draft_text d\<rparr>]\<rparr>)))),
      qe_getAllDrafts = storeCallOf failing ''getAllDrafts'' (\<lambda>db. (db_drafts db, db)),
      qe_removeAllDrafts = storeCallOf failing ''removeAllDrafts''
          (\<lambda>db. ((), db\<lparr>db_drafts := []\<rparr>)),
      qe_removeAllMessages = storeCallOf failing ''removeAllMessages''
          (\<lambda>db. ((), db\<lparr>db_messages := []\<rparr>)),
      qe_getAllMessages = storeCallOf failing ''getAllMessages'' (\<lambda>db. (db_messages db, db)),
      qe_beginTransaction = storeCallOf failing ''beginTransaction''
          (\<lambda>db. ((), db\<lparr>db_in_transaction := True\<rparr>)),
      qe_execute = (\<lambda>operation. storeCallOf failing (operationName operation)
          (simpleExecute operation)),
      qe_commitTransaction = storeCallOf failing ''commitTransaction''
          (\<lambda>db. ((), db\<lparr>db_in_transaction := False\<rparr>)),
      qe_getOlmPersistAccountData = storeCallOf failing ''getOlmPersistAccountData''
          (\<lambda>db. (db_olm_account db, db)),
      qe_getOlmPersistSessionsData = storeCallOf failing ''getOlmPersistSessionsData''
          (\<lambda>db. (db_olm_sessions db, db)),
      qe_storeOlmPersistData = (\<lambda>persist. storeCallOf failing ''storeOlmPersistData''
          (\<lambda>db. ((), db\<lparr>db_olm_account := Some (account persist),
                          db_olm_sessions :=
                            map (\<lambda>(k, v). \<lparr>target_user_id = k, session_data = v\<rparr>)
                              (sessions persist)\<rparr>)))\<rparr>"

definition emptyDb :: SimpleDb where
  "emptyDb = \<lparr>db_drafts = [], db_messages = [], db_media = [], db_olm_account = None,
              db_olm_sessions = [], db_in_transaction = False\<rparr>"

text \<open>
  Modelled from the spec: the crypto module (\<^verbatim>\<open>crypto::CryptoModule\<close>, not among the
  sources), with the five operations of the spec's external interfaces: construct from a
  secret key and persisted state, serialize, restore, export identity keys, export one-time
  keys. The identity is a string derived from the user and the key, or the account blob it
  was restored from. The calls named in \<open>failing\<close> throw \<^verbatim>\<open>std::runtime_error\<close>.
\<close>

record SimpleCryptoModule =
  scm_userId :: string
  scm_secretKey :: string
  scm_account :: string
  scm_sessions :: "(string \<times> string) list"

definition cryptoCallOf ::
  "string list \<Rightarrow> string \<Rightarrow> (SimpleCryptoModule \<Rightarrow> 'a \<times> SimpleCryptoModule)
     \<Rightarrow> SimpleCryptoModule \<Rightarrow> (exception + 'a) \<times> SimpleCryptoModule" where
  "cryptoCallOf failing name f m =
     (if name \<in> set failing then (Inl (runtime_error (name @ '' failed'')), m)
      else (let (v, m') = f m in (Inr v, m')))"

definition simpleCrypto :: "string list \<Rightarrow> SimpleCryptoModule CryptoLib" where
  "simpleCrypto failing =
     \<lparr>cm_CryptoModule = (\<lambda>userId secretKey persist.
          if ''CryptoModule'' \<in> set failing
          then Inl (runtime_error ''CryptoModule failed'')
          else Inr \<lparr>scm_userId = userId, scm_secretKey = secretKey,
                    scm_account = (if account persist = []
                                   then ''account:'' @ userId @ '':'' @ secretKey
                                   else account persist),
                    scm_sessions = sessions persist\<rparr>),
      cm_storeAsB64 = (\<lambda>secretKey. cryptoCallOf failing ''storeAsB64''
          (\<lambda>m. (\<lparr>account = scm_account m, sessions = scm_sessions m\<rparr>, m))),
      cm_restoreFromB64 = (\<lambda>secretKey persist. cryptoCallOf failing ''restoreFromB64''
          (\<lambda>m. ((), m\<lparr>scm_account := account persist,
                         scm_sessions := sessions persist\<rparr>))),
      cm_getIdentityKeys = cryptoCallOf failing ''getIdentityKeys''
          (\<lambda>m. (''identity keys of '' @ scm_account m, m)),
      cm_getOneTimeKeys = cryptoCallOf failing ''getOneTimeKeys''
          (\<lambda>m. (''one-time keys of '' @ scm_account m, m))\<rparr>"

text \<open>
  Two more stand-ins for the restart: the same store, except that the read of the account
  fails with a store error once an account is stored; and the same crypto module, except
  that a fresh account also depends on the randomness \<open>seed\<close> of the process that
  constructs it.
\<close>

definition unreadableOnceStored :: "SimpleDb QueryExecutor" where
  "unreadableOnceStored =
     (simpleExecutor [])
       \<lparr>qe_getOlmPersistAccountData :=
          (\<lambda>db. if db_olm_account db = None then (Inr None, db)
                else (Inl (system_error ''disk I/O error''), db))\<rparr>"

definition reseededCrypto :: "string \<Rightarrow> SimpleCryptoModule CryptoLib" where
  "reseededCrypto seed =
     (simpleCrypto [])
       \<lparr>cm_CryptoModule := (\<lambda>userId secretKey persist.
          Inr \<lparr>scm_userId = userId, scm_secretKey = secretKey,
                scm_account = (if account persist = []
                               then ''account:'' @ userId @ '':'' @ secretKey @ '':'' @ seed
                               else account persist),
                scm_sessions = sessions persist\<rparr>)\<rparr>"

text \<open>The module right after its constructor: no crypto module, no client, nothing done.\<close>

definition newModule :: "SimpleDb \<Rightarrow> (string \<rightharpoonup> string) \<Rightarrow> (SimpleDb, SimpleCryptoModule) World" where
  "newModule db secrets =
     \<lparr>database = db, secureStore = secrets, secureStoreAccountDataKey = ''cryptoAccountDataKey'',
      cryptoModule = None, networkClient = None, trace = []\<rparr>"


text \<open>Payloads as JavaScript sends them, for the concrete instances below.\<close>

definition replace_m1 :: jsValue where
  "replace_m1 =
     JSObject [(''type'', JSString ''replace''),
       (''payload'', JSObject [(''id'', JSString ''m1''), (''thread'', JSString ''t1''),
          (''user'', JSString ''u1''), (''type'', JSString ''0''),
          (''time'', JSString ''1000'')])]"

definition message_m1 :: Message where
  "message_m1 = \<lparr>message_id = ''m1'', local_id = None, thread = ''t1'', user = ''u1'',
                  message_type = 0, future_type = None, content = None, time = 1000\<rparr>"

definition rekey_m1_m2 :: jsValue where
  "rekey_m1_m2 =
     JSObject [(''type'', JSString ''rekey''),
       (''payload'', JSObject [(''from'', JSString ''m1''), (''to'', JSString ''m2'')])]"

definition replace_type_abc :: jsValue where
  "replace_type_abc =
     JSObject [(''type'', JSString ''replace''),
       (''payload'', JSObject [(''id'', JSString ''m1''), (''thread'', JSString ''t1''),
          (''user'', JSString ''u1''), (''type'', JSString ''abc''),
          (''time'', JSString ''1000'')])]"

definition unsupported_bogus :: jsValue where
  "unsupported_bogus = JSObject [(''type'', JSString ''bogus''), (''payload'', JSObject [])]"

definition replace_future_type_x :: jsValue where
  "replace_future_type_x =
     JSObject [(''type'', JSString ''replace''),
       (''payload'', JSObject [(''id'', JSString ''m1''), (''thread'', JSString ''t1''),
          (''user'', JSString ''u1''), (''type'', JSString ''0''),
          (''future_type'', JSString ''x''), (''time'', JSString ''1000'')])]"

definition replace_time_empty :: jsValue where
  "replace_time_empty =
     JSObject [(''type'', JSString ''replace''),
       (''payload'', JSObject [(''id'', JSString ''m1''), (''thread'', JSString ''t1''),
          (''user'', JSString ''u1''), (''type'', JSString ''0''),
          (''time'', JSString [])])]"

section \<open>Properties\<close>

subsection \<open>Network endpoint\<close>

lemma take_5_https: "take 5 host = ''https'' \<longleftrightarrow> prefix ''https'' host"
proof
  assume "take 5 host = ''https''"
  then have "host = ''https'' @ drop 5 host"
    by (metis append_take_drop_id)
  then show "prefix ''https'' host"
    by (metis prefixI)
next
  assume "prefix ''https'' host"
  then obtain zs where "host = ''https'' @ zs"
    by (auto simp: prefix_def)
  then show "take 5 host = ''https''"
    by simp
qed

lemma localhost_not_https: "\<not> prefix ''https'' ''localhost''" "\<not> prefix ''https'' []"
  by (simp_all add: prefix_def)

text \<open>
  C9. For every user id, device token and hostname, the client that
  \<^verbatim>\<open>initializeNetworkModule\<close> constructs has SSL credentials if and only if the hostname
  begins with \<^verbatim>\<open>https\<close>, and insecure channel credentials if and only if it does not.
\<close>

theorem initializeNetworkModule_secure_iff_https:
  "\<exists>c. networkClient (initializeNetworkModule userId deviceToken hostname w) = Some c
       \<and> client_userId c = userId \<and> client_deviceToken c = deviceToken
       \<and> (client_credentials c = SslCredentials \<longleftrightarrow> prefix ''https'' hostname)
       \<and> (client_credentials c = InsecureChannelCredentials \<longleftrightarrow> \<not> prefix ''https'' hostname)"
  by (cases "hostname = []")
    (simp_all add: initializeNetworkModule_def Let_def take_5_https localhost_not_https)

theorem initializeNetworkModule_secure_iff_https_witness:
  "(\<exists>c. networkClient (initializeNetworkModule ''u1'' ''tok'' ''https://comm.app''
            \<lparr>database = (), secureStore = Map.empty, secureStoreAccountDataKey = ''k'',
             cryptoModule = (None :: unit option), networkClient = None, trace = []\<rparr>) = Some c
        \<and> client_credentials c = SslCredentials)
   \<and> (\<exists>c. networkClient (initializeNetworkModule ''u1'' ''tok'' ''10.0.2.2''
            \<lparr>database = (), secureStore = Map.empty, secureStoreAccountDataKey = ''k'',
             cryptoModule = (None :: unit option), networkClient = None, trace = []\<rparr>) = Some c
        \<and> client_credentials c = InsecureChannelCredentials)"
  using initializeNetworkModule_secure_iff_https [of "''u1''" "''tok''" "''https://comm.app''"]
    initializeNetworkModule_secure_iff_https [of "''u1''" "''tok''" "''10.0.2.2''"]
  by (simp add: prefix_def) blast

text \<open>
  C10. Called with the empty hostname, \<^verbatim>\<open>initializeNetworkModule\<close> constructs the client
  against host \<^verbatim>\<open>localhost\<close> with insecure channel credentials; and whatever the hostname,
  the port is the constant \<^verbatim>\<open>50051\<close>.
\<close>

theorem initializeNetworkModule_localhost_and_port:
  "(\<exists>c. networkClient (initializeNetworkModule userId deviceToken [] w) = Some c
        \<and> client_host c = ''localhost''
        \<and> client_credentials c = InsecureChannelCredentials)
   \<and> (\<exists>c. networkClient (initializeNetworkModule userId deviceToken hostname w) = Some c
        \<and> client_port c = ''50051''
        \<and> client_host c = (if hostname = [] then ''localhost'' else hostname))"
  by (simp add: initializeNetworkModule_def Let_def)

subsection \<open>Listing the drafts\<close>

lemma fillDrafts_exact:
  "fillDrafts draftsVector (length done)
     (done @ newArray (length (filter (\<lambda>draft. draft_text draft \<noteq> []) draftsVector)) @ rest)
   = Inr (done @ map jsiDraft (filter (\<lambda>draft. draft_text draft \<noteq> []) draftsVector) @ rest)"
proof (induction draftsVector arbitrary: "done")
  case Nil
  then show ?case by (simp add: newArray_def)
next
  case (Cons draft draftsVector)
  show ?case
  proof (cases "draft_text draft = []")
    case True
    then show ?thesis using Cons.IH [of "done"] by simp
  next
    case False
    then show ?thesis
      using Cons.IH [of "done @ [jsiDraft draft]"]
      by (simp add: newArray_def setValueAtIndex_def list_update_append)
  qed
qed

lemma getAllDrafts_returned:
  assumes "qe_getAllDrafts qe (database w) = (Inr draftsVector, db')"
  shows "getAllDrafts qe indeterminate w =
           w\<lparr>database := db',
             trace := trace w @ [Submit databaseThread, Store call_getAllDrafts None,
               Settle (resolve (JSArray (map jsiDraft
                 (filter (\<lambda>draft. draft_text draft \<noteq> []) draftsVector))))]\<rparr>"
  using assms fillDrafts_exact [of draftsVector "[]" "[]"]
  by (simp add: getAllDrafts_def Let_def callStore_def emit_def thrown_def tryCatch_def)

text \<open>
  C8. Whatever the store holds, when its read of the drafts returns, \<^verbatim>\<open>getAllDrafts\<close>
  resolves its promise, once, with an array that holds exactly the drafts whose text is not
  empty, in the store's order, each as an object with the draft's \<^verbatim>\<open>key\<close> and \<^verbatim>\<open>text\<close>.
  The array's length is the number of such drafts, and it is the empty array (not null)
  when there is none, in particular when the store holds no draft.
\<close>

theorem getAllDrafts_resolves_with_nonempty_drafts:
  assumes "qe_getAllDrafts qe (database w) = (Inr draftsVector, db')"
  shows "\<exists>jsiDrafts.
           trace (getAllDrafts qe indeterminate w) =
             trace w @ [Submit databaseThread, Store call_getAllDrafts None,
                        Settle (resolve (JSArray jsiDrafts))]
         \<and> jsiDrafts =
             map (\<lambda>draft. JSObject [(''key'', JSString (draft_key draft)),
                                     (''text'', JSString (draft_text draft))])
               (filter (\<lambda>draft. draft_text draft \<noteq> []) draftsVector)
         \<and> length jsiDrafts = length (filter (\<lambda>draft. draft_text draft \<noteq> []) draftsVector)
         \<and> (jsiDrafts = [] \<longleftrightarrow> (\<forall>draft \<in> set draftsVector. draft_text draft = []))"
proof -
  have "jsiDraft = (\<lambda>draft. JSObject [(''key'', JSString (draft_key draft)),
                                       (''text'', JSString (draft_text draft))])"
    by (rule ext) (simp add: jsiDraft_def)
  then show ?thesis
    using getAllDrafts_returned [OF assms, of indeterminate]
    by (simp add: filter_empty_conv)
qed

theorem getAllDrafts_resolves_with_nonempty_drafts_witness:
  "trace (getAllDrafts (simpleExecutor []) 0
            (newModule
               (emptyDb\<lparr>db_drafts := [\<lparr>draft_key = ''a'', draft_text = ''hello''\<rparr>,
                                       \<lparr>draft_key = ''b'', draft_text = []\<rparr>]\<rparr>)
               Map.empty)) =
     [Submit databaseThread, Store call_getAllDrafts None,
      Settle (resolve (JSArray [JSObject [(''key'', JSString ''a''),
                                          (''text'', JSString ''hello'')]]))]
   \<and> trace (getAllDrafts (simpleExecutor []) 0 (newModule emptyDb Map.empty)) =
     [Submit databaseThread, Store call_getAllDrafts None, Settle (resolve (JSArray []))]"
  using
    getAllDrafts_resolves_with_nonempty_drafts
      [of "simpleExecutor []"
          "newModule
             (emptyDb\<lparr>db_drafts := [\<lparr>draft_key = ''a'', draft_text = ''hello''\<rparr>,
                                     \<lparr>draft_key = ''b'', draft_text = []\<rparr>]\<rparr>)
             Map.empty"
          "[\<lparr>draft_key = ''a'', draft_text = ''hello''\<rparr>, \<lparr>draft_key = ''b'', draft_text = []\<rparr>]"
          "emptyDb\<lparr>db_drafts := [\<lparr>draft_key = ''a'', draft_text = ''hello''\<rparr>,
                                  \<lparr>draft_key = ''b'', draft_text = []\<rparr>]\<rparr>"
          0]
    getAllDrafts_resolves_with_nonempty_drafts
      [of "simpleExecutor []" "newModule emptyDb Map.empty" "[]" emptyDb 0]
  by (simp add: simpleExecutor_def storeCallOf_def newModule_def emptyDb_def)

subsection \<open>What a call adds to the trace\<close>

lemma settlementsOf_append [simp]:
  "settlementsOf (xs @ ys) = settlementsOf xs @ settlementsOf ys"
  by (induction xs) simp_all

lemma uncaughtOf_append [simp]: "uncaughtOf (xs @ ys) = uncaughtOf xs @ uncaughtOf ys"
  by (induction xs) simp_all

lemma submittedOf_append [simp]: "submittedOf (xs @ ys) = submittedOf xs @ submittedOf ys"
  by (induction xs) simp_all

lemma storeCallsOf_append [simp]: "storeCallsOf (xs @ ys) = storeCallsOf xs @ storeCallsOf ys"
  by (induction xs) simp_all

lemma cryptoCallsOf_append [simp]:
  "cryptoCallsOf (xs @ ys) = cryptoCallsOf xs @ cryptoCallsOf ys"
  by (induction xs) simp_all

lemma executes_read [simp]:
  "settlementsOf (map (\<lambda>operation. Store (call_execute operation) None) ops) = []"
  "uncaughtOf (map (\<lambda>operation. Store (call_execute operation) None) ops) = []"
  "submittedOf (map (\<lambda>operation. Store (call_execute operation) None) ops) = []"
  "cryptoCallsOf (map (\<lambda>operation. Store (call_execute operation) None) ops) = []"
  "storeCallsOf (map (\<lambda>operation. Store (call_execute operation) None) ops) =
     map (\<lambda>operation. (call_execute operation, None)) ops"
  by (induction ops) simp_all

lemmas plumbing =
  emit_def callStore_def callCrypto_def thrown_def tryCatch_def settlePromise_def Let_def














lemma storeNewPersist_ends:
  "\<exists>new. trace (storeNewPersist qe newPersist w) = trace w @ new \<and> endsOnce None new"
  by (auto simp: storeNewPersist_def plumbing endsOnce_def onlyStoreErrors_def
      split: prod.splits sum.splits exception.splits)


lemma loadPersist_events:
  assumes "loadPersist qe w = ((ex, persist), w1)"
  shows "\<exists>pre. trace w1 = trace w @ pre \<and> settlementsOf pre = [] \<and> uncaughtOf pre = []
           \<and> (\<forall>e. ex = Some e \<longrightarrow> (\<exists>c. (c, Some e) \<in> set (storeCallsOf pre)))"
  using assms
  by (auto simp: loadPersist_def plumbing
      split: prod.splits sum.splits option.splits)



subsection \<open>How often a promise is settled\<close>





subsection \<open>The batch of message store operations\<close>




















subsection \<open>Unsupported and malformed operations\<close>

text \<open>The loop over a concatenation: the second part is read only if the first was built.\<close>

lemma parseOperations_append:
  "parseOperations (before @ rest) acc =
     (case parseOperations before acc of
        Inl e \<Rightarrow> Inl e
      | Inr (Inl op_type) \<Rightarrow> Inr (Inl op_type)
      | Inr (Inr ops) \<Rightarrow> parseOperations rest ops)"
proof (induction before arbitrary: acc)
  case Nil
  then show ?case by simp
next
  case (Cons v before)
  show ?case
    by (simp add: Cons.IH bind_ex_def split: sum.splits)
qed

lemma parseOperations_single:
  "parseOperations [v] acc =
     (case parseOperations [v] [] of
        Inl e \<Rightarrow> Inl e
      | Inr (Inl op_type) \<Rightarrow> Inr (Inl op_type)
      | Inr (Inr ops) \<Rightarrow> Inr (Inr (acc @ ops)))"
  by (simp add: bind_ex_def split: sum.splits)

lemma parseOperations_reaches:
  assumes "parseOperations before [] = Inr (Inr ops)"
  shows "parseOperations (before @ v # after) [] =
     (case parseOperations [v] [] of
        Inl e \<Rightarrow> Inl e
      | Inr (Inl op_type) \<Rightarrow> Inr (Inl op_type)
      | Inr (Inr xs) \<Rightarrow> parseOperations after (ops @ xs))"
proof -
  have "parseOperations (before @ [v] @ after) [] =
          (case parseOperations [v] ops of
             Inl e \<Rightarrow> Inl e
           | Inr (Inl op_type) \<Rightarrow> Inr (Inl op_type)
           | Inr (Inr ys) \<Rightarrow> parseOperations after ys)"
    unfolding parseOperations_append [of before] parseOperations_append [of "[v]"]
    using assms by simp
  then show ?thesis
    by (subst (asm) parseOperations_single) (simp split: sum.splits)
qed

lemma parseOperations_unsupported:
  assumes "asObject v = Inr op" and "propString op ''type'' = Inr op_type"
    and "op_type \<notin> {REMOVE_OPERATION, REMOVE_MSGS_FOR_THREADS_OPERATION,
                      REPLACE_OPERATION, REKEY_OPERATION}"
  shows "parseOperations [v] [] = Inr (Inl op_type)"
  using assms by (simp add: bind_ex_def)

lemma parseOperations_never_built:
  assumes "asObject v = Inr op" and "propString op ''type'' = Inr op_type"
    and "op_type \<notin> {REMOVE_OPERATION, REMOVE_MSGS_FOR_THREADS_OPERATION,
                      REPLACE_OPERATION, REKEY_OPERATION}"
  shows "parseOperations (before @ v # after) [] \<noteq> Inr (Inr ops)"
proof (cases "parseOperations before []")
  case (Inl e)
  then show ?thesis by (simp add: parseOperations_append)
next
  case (Inr parsed)
  show ?thesis
  proof (cases parsed)
    case (Inl t)
    with Inr show ?thesis by (simp add: parseOperations_append)
  next
    case built: (Inr xs)
    with Inr have "parseOperations before [] = Inr (Inr xs)" by simp
    from parseOperations_reaches [OF this, of v after] parseOperations_unsupported [OF assms]
    show ?thesis by simp
  qed
qed

text \<open>
  C5 (as amended). Take any batch that contains an operation whose type tag is a string
  other than the four supported ones. Whatever else the batch holds, the call submits no
  task, makes no store call and leaves the module's state as it was: it either rejects its
  promise, once, with an unsupported-operation error, or throws to the caller. When every
  operation before that one is a well-formed supported operation, it rejects with
  \<^verbatim>\<open>unsupported operation: \<close> followed by that operation's tag.
\<close>

theorem unsupported_operation_no_task:
  assumes "asObject v = Inr op" and "propString op ''type'' = Inr op_type"
    and "op_type \<notin> {REMOVE_OPERATION, REMOVE_MSGS_FOR_THREADS_OPERATION,
                      REPLACE_OPERATION, REKEY_OPERATION}"
    and "processMessageStoreOperations qe (before @ v # after) w = (thrownToCaller, w')"
  shows "(\<exists>new. w' = w\<lparr>trace := trace w @ new\<rparr>
            \<and> submittedOf new = [] \<and> storeCallsOf new = []
            \<and> (case thrownToCaller of
                  None \<Rightarrow> (\<exists>t. new = [Settle (reject (''unsupported operation: '' @ t))])
                | Some e \<Rightarrow> new = []))
         \<and> (\<forall>ops. parseOperations before [] = Inr (Inr ops) \<longrightarrow>
               thrownToCaller = None
               \<and> w' = w\<lparr>trace := trace w
                            @ [Settle (reject (''unsupported operation: '' @ op_type))]\<rparr>)"
proof -
  have never: "parseOperations (before @ v # after) [] \<noteq> Inr (Inr ops)" for ops
    by (rule parseOperations_never_built [OF assms(1-3)])
  have first: ?thesis if built: "parseOperations before [] = Inr (Inr ops)" for ops
  proof -
    from parseOperations_reaches [OF built, of v after] parseOperations_unsupported [OF assms(1-3)]
    have "parseOperations (before @ v # after) [] = Inr (Inl op_type)"
      by simp
    with assms(4) built show ?thesis
      by (auto simp: processMessageStoreOperations_def emit_def)
  qed
  show ?thesis
  proof (cases "parseOperations (before @ v # after) []")
    case (Inl e)
    then have "\<not> (\<exists>ops. parseOperations before [] = Inr (Inr ops))"
      using first assms(4) by (auto simp: processMessageStoreOperations_def)
    with Inl assms(4) show ?thesis
      by (auto simp: processMessageStoreOperations_def)
  next
    case (Inr parsed)
    show ?thesis
    proof (cases parsed)
      case (Inl t)
      show ?thesis
      proof (cases "\<exists>ops. parseOperations before [] = Inr (Inr ops)")
        case True
        with first show ?thesis by blast
      next
        case False
        with Inl Inr assms(4) show ?thesis
          by (auto simp: processMessageStoreOperations_def emit_def)
      qed
    next
      case built: (Inr ops)
      with Inr never show ?thesis by simp
    qed
  qed
qed

theorem unsupported_operation_no_task_witness:
  "snd (processMessageStoreOperations (simpleExecutor []) [replace_m1, unsupported_bogus, rekey_m1_m2]
          (newModule emptyDb Map.empty)) =
     (newModule emptyDb Map.empty)
       \<lparr>trace := [Settle (reject ''unsupported operation: bogus'')]\<rparr>"
proof -
  have v: "asObject unsupported_bogus = Inr unsupported_bogus"
    "propString unsupported_bogus ''type'' = Inr ''bogus''"
    "''bogus'' \<notin> {REMOVE_OPERATION, REMOVE_MSGS_FOR_THREADS_OPERATION,
                    REPLACE_OPERATION, REKEY_OPERATION}"
    by (simp_all add: unsupported_bogus_def propString_def REMOVE_OPERATION_def
          REMOVE_MSGS_FOR_THREADS_OPERATION_def REPLACE_OPERATION_def REKEY_OPERATION_def)
  have parsed: "parseOperations [replace_m1] [] = Inr (Inr [ReplaceMessageOperation message_m1 []])"
    by code_simp
  from unsupported_operation_no_task [OF v surjective_pairing,
      of "simpleExecutor []" "[replace_m1]" "[rekey_m1_m2]" "newModule emptyDb Map.empty"] parsed
  show ?thesis
    by (simp add: newModule_def)
qed

text \<open>
  C5 as stated fails. The batch holds an operation of the unsupported kind \<^verbatim>\<open>bogus\<close>, but
  the replace operation before it has the type \<^verbatim>\<open>abc\<close>: \<^verbatim>\<open>std::stoi\<close> throws on the
  caller's thread before the loop reaches the unsupported operation, and nothing is
  rejected.
\<close>

theorem unsupported_after_malformed_counterexample:
  "propString unsupported_bogus ''type'' = Inr ''bogus''
   \<and> fst (processMessageStoreOperations (simpleExecutor [])
            [replace_type_abc, unsupported_bogus] (newModule emptyDb Map.empty))
       = Some (invalid_argument ''stoi'')
   \<and> settlementsOf (trace (snd (processMessageStoreOperations (simpleExecutor [])
            [replace_type_abc, unsupported_bogus] (newModule emptyDb Map.empty)))) = []"
  by code_simp

text \<open>
  The malformed payloads the claim names: a replace operation whose \<^verbatim>\<open>type\<close>,
  \<^verbatim>\<open>future_type\<close> or \<^verbatim>\<open>time\<close> string holds no integer for \<^verbatim>\<open>strtol\<close> to read. (A
  string such as \<^verbatim>\<open>12abc\<close> does hold one, and is accepted as 12.)
\<close>

lemma stoi_no_digits:
  "strtol s = None \<Longrightarrow> stoi s = Inl (invalid_argument ''stoi'')"
  "strtol s = None \<Longrightarrow> stoll s = Inl (invalid_argument ''stoll'')"
  by (simp_all add: stoi_def stoll_def)

lemma strtol_reads_prefix: "strtol ''12abc'' = Some 12"
  by (simp add: strtol_def isspace_def isdigit_def digits_value_def)

lemma replace_without_integer_is_malformed:
  assumes "asObject v = Inr op" and "propString op ''type'' = Inr REPLACE_OPERATION"
    and "asObject (getProperty op ''payload'') = Inr msg_obj"
    and "propString msg_obj ''id'' = Inr msg_id"
    and "propString msg_obj ''thread'' = Inr thread_id"
    and "propString msg_obj ''user'' = Inr user_id"
    and "propString msg_obj ''type'' = Inr type_str"
  shows "strtol type_str = None \<Longrightarrow> parseOperations [v] [] = Inl (invalid_argument ''stoi'')"
    and "stoi type_str = Inr type \<Longrightarrow> getProperty msg_obj ''future_type'' = JSString future_str
         \<Longrightarrow> strtol future_str = None
         \<Longrightarrow> parseOperations [v] [] = Inl (invalid_argument ''stoi'')"
    and "stoi type_str = Inr type \<Longrightarrow> \<not> isString (getProperty msg_obj ''future_type'')
         \<Longrightarrow> propString msg_obj ''time'' = Inr time_str \<Longrightarrow> strtol time_str = None
         \<Longrightarrow> parseOperations [v] [] = Inl (invalid_argument ''stoll'')"
proof -
  have kind: "REPLACE_OPERATION \<noteq> REMOVE_OPERATION"
    "REPLACE_OPERATION \<noteq> REMOVE_MSGS_FOR_THREADS_OPERATION"
    by (simp_all add: REPLACE_OPERATION_def REMOVE_OPERATION_def
          REMOVE_MSGS_FOR_THREADS_OPERATION_def)
  show "strtol type_str = None \<Longrightarrow> parseOperations [v] [] = Inl (invalid_argument ''stoi'')"
    using assms kind by (simp add: bind_ex_def parseReplace_def stoi_no_digits)
  show "stoi type_str = Inr type \<Longrightarrow> getProperty msg_obj ''future_type'' = JSString future_str
         \<Longrightarrow> strtol future_str = None
         \<Longrightarrow> parseOperations [v] [] = Inl (invalid_argument ''stoi'')"
    using assms kind by (simp add: bind_ex_def parseReplace_def stoi_no_digits)
  show "stoi type_str = Inr type \<Longrightarrow> \<not> isString (getProperty msg_obj ''future_type'')
         \<Longrightarrow> propString msg_obj ''time'' = Inr time_str \<Longrightarrow> strtol time_str = None
         \<Longrightarrow> parseOperations [v] [] = Inl (invalid_argument ''stoll'')"
    using assms kind
    by (cases "getProperty msg_obj ''future_type''")
      (simp_all add: bind_ex_def parseReplace_def stoi_no_digits Let_def)
qed

text \<open>
  C7 (as amended). A malformed operation that the loop reaches, that is, one whose
  conversion throws (as it does for the replace operations of
  \<open>replace_without_integer_is_malformed\<close>), standing after any number of well-formed
  supported operations and before anything at all: the call ends on the caller's thread by
  throwing that exception to the caller. The module is left exactly as it was: no promise
  was made, so none is rejected, no task was submitted and no worker or store was touched.
\<close>

theorem malformed_operation_thrown_to_caller:
  assumes "parseOperations before [] = Inr (Inr ops)"
    and "parseOperations [v] [] = Inl e"
  shows "processMessageStoreOperations qe (before @ v # after) w = (Some e, w)"
  using parseOperations_reaches [OF assms(1), of v after] assms(2)
  by (simp add: processMessageStoreOperations_def)

theorem malformed_operation_thrown_to_caller_witness:
  "processMessageStoreOperations (simpleExecutor []) [replace_m1, replace_type_abc, rekey_m1_m2]
     (newModule emptyDb Map.empty)
     = (Some (invalid_argument ''stoi''), newModule emptyDb Map.empty)
   \<and> processMessageStoreOperations (simpleExecutor []) [replace_m1, replace_future_type_x]
     (newModule emptyDb Map.empty)
     = (Some (invalid_argument ''stoi''), newModule emptyDb Map.empty)
   \<and> processMessageStoreOperations (simpleExecutor []) [replace_time_empty, unsupported_bogus]
     (newModule emptyDb Map.empty)
     = (Some (invalid_argument ''stoll''), newModule emptyDb Map.empty)"
proof -
  have built: "parseOperations [replace_m1] [] = Inr (Inr [ReplaceMessageOperation message_m1 []])"
    "parseOperations [] [] = Inr (Inr [])"
    by code_simp+
  have malformed: "parseOperations [replace_type_abc] [] = Inl (invalid_argument ''stoi'')"
    "parseOperations [replace_future_type_x] [] = Inl (invalid_argument ''stoi'')"
    "parseOperations [replace_time_empty] [] = Inl (invalid_argument ''stoll'')"
    by code_simp+
  from
    malformed_operation_thrown_to_caller [OF built(1) malformed(1),
      of "simpleExecutor []" "[rekey_m1_m2]" "newModule emptyDb Map.empty"]
    malformed_operation_thrown_to_caller [OF built(1) malformed(2),
      of "simpleExecutor []" "[]" "newModule emptyDb Map.empty"]
    malformed_operation_thrown_to_caller [OF built(2) malformed(3),
      of "simpleExecutor []" "[unsupported_bogus]" "newModule emptyDb Map.empty"]
  show ?thesis by simp
qed

text \<open>
  C7 as stated fails. The type of the only operation is the string \<^verbatim>\<open>abc\<close>: the call
  throws \<^verbatim>\<open>std::invalid_argument\<close> to its caller; no promise was made and the trace holds
  no rejection.
\<close>

theorem malformed_operation_not_rejected_counterexample:
  "fst (processMessageStoreOperations (simpleExecutor []) [replace_type_abc]
          (newModule emptyDb Map.empty)) = Some (invalid_argument ''stoi'')
   \<and> trace (snd (processMessageStoreOperations (simpleExecutor []) [replace_type_abc]
          (newModule emptyDb Map.empty))) = []"
  by code_simp

subsection \<open>The crypto bootstrap and the key exports\<close>

lemma storeNewPersist_frame:
  "cryptoModule (storeNewPersist qe newPersist w) = cryptoModule w"
  "secureStore (storeNewPersist qe newPersist w) = secureStore w"
  "secureStoreAccountDataKey (storeNewPersist qe newPersist w) = secureStoreAccountDataKey w"
  by (auto simp: storeNewPersist_def plumbing split: prod.splits sum.splits exception.splits)

lemma cryptoTask_module:
  "\<exists>new. trace (cryptoTask qe cl userId secretKey persist loadError w) = trace w @ new
     \<and> (case cm_CryptoModule cl userId secretKey persist of
           Inl e \<Rightarrow> cryptoModule (cryptoTask qe cl userId secretKey persist loadError w)
                      = cryptoModule w
                    \<and> cryptoCallsOf new = [(call_CryptoModule userId secretKey persist, Some e)]
         | Inr m \<Rightarrow> cryptoModule (cryptoTask qe cl userId secretKey persist loadError w) \<noteq> None
                    \<and> hd (cryptoCallsOf new) = (call_CryptoModule userId secretKey persist, None))"
proof (cases "cm_CryptoModule cl userId secretKey persist")
  case (Inl e)
  then show ?thesis
    by (simp add: cryptoTask_def plumbing)
next
  case (Inr m)
  show ?thesis
  proof (cases "isEmpty persist")
    case True
    obtain x m' where ser: "cm_storeAsB64 cl secretKey m = (x, m')"
      by (cases "cm_storeAsB64 cl secretKey m")
    show ?thesis
    proof (cases x)
      case (Inl e)
      with Inr True ser show ?thesis
        by (simp add: cryptoTask_def plumbing)
    next
      case newPersist: (Inr newPersist)
      define w3 where "w3 =
        emit (Submit databaseThread)
          (emit (Crypto (call_storeAsB64 secretKey) None)
            (emit (Crypto (call_CryptoModule userId secretKey persist) None) w
               \<lparr>cryptoModule := Some m, cryptoModule := Some m'\<rparr>))"
      have run: "cryptoTask qe cl userId secretKey persist loadError w =
                   storeNewPersist qe newPersist w3"
        using Inr True ser newPersist by (simp add: cryptoTask_def plumbing w3_def)
      have pre: "trace w3 = trace w @ [Crypto (call_CryptoModule userId secretKey persist) None,
                   Crypto (call_storeAsB64 secretKey) None, Submit databaseThread]"
        "cryptoModule w3 = Some m'"
        by (simp_all add: w3_def emit_def)
      obtain new where new: "trace (storeNewPersist qe newPersist w3) = trace w3 @ new"
        using storeNewPersist_ends [of qe newPersist w3] by blast
      with run pre Inr show ?thesis
        by (simp add: storeNewPersist_frame)
    qed
  next
    case False
    with Inr show ?thesis
      by (auto simp: cryptoTask_def plumbing split: prod.splits sum.splits)
  qed
qed

text \<open>
  C3 (as amended). \<^verbatim>\<open>getUserPublicKey\<close> and \<^verbatim>\<open>getUserOneTimeKeys\<close> test one thing, whether
  a crypto module object exists. While there is none they reject with
  \<^verbatim>\<open>user has not been initialized\<close>. From the moment the constructor has returned inside
  the crypto task of \<^verbatim>\<open>initializeCryptoAccount\<close> there is one, whether or not the
  serialized identity is, or ever gets, persisted; from then on they never reject, and
  resolve with the keys the module exports.
\<close>

theorem key_export_rejects_iff_no_module:
  "(cryptoModule w = None \<longrightarrow>
      trace (getUserPublicKey cl w) =
        trace w @ [Submit cryptoThread, Settle (reject ''user has not been initialized'')]
      \<and> trace (getUserOneTimeKeys cl w) =
        trace w @ [Submit cryptoThread, Settle (reject ''user has not been initialized'')])
   \<and> (\<forall>m keys m'. cryptoModule w = Some m \<and> cm_getIdentityKeys cl m = (Inr keys, m') \<longrightarrow>
        trace (getUserPublicKey cl w) =
          trace w @ [Submit cryptoThread, Crypto call_getIdentityKeys None,
                     Settle (resolve (JSString keys))])
   \<and> (\<forall>m keys m'. cryptoModule w = Some m \<and> cm_getOneTimeKeys cl m = (Inr keys, m') \<longrightarrow>
        trace (getUserOneTimeKeys cl w) =
          trace w @ [Submit cryptoThread, Crypto call_getOneTimeKeys None,
                     Settle (resolve (JSString keys))])
   \<and> (\<forall>m e m'. cryptoModule w = Some m \<and> cm_getIdentityKeys cl m = (Inl e, m') \<longrightarrow>
        trace (getUserPublicKey cl w) =
          trace w @ [Submit cryptoThread, Crypto call_getIdentityKeys (Some e), Uncaught e])
   \<and> (\<forall>m e m'. cryptoModule w = Some m \<and> cm_getOneTimeKeys cl m = (Inl e, m') \<longrightarrow>
        trace (getUserOneTimeKeys cl w) =
          trace w @ [Submit cryptoThread, Crypto call_getOneTimeKeys (Some e), Uncaught e])
   \<and> (\<forall>m. cm_CryptoModule cl userId secretKey persist = Inr m \<longrightarrow>
        cryptoModule (cryptoTask qe cl userId secretKey persist loadError w) \<noteq> None)"
proof -
  have "cm_CryptoModule cl userId secretKey persist = Inr m \<Longrightarrow>
        cryptoModule (cryptoTask qe cl userId secretKey persist loadError w) \<noteq> None" for m
    using cryptoTask_module [of qe cl userId secretKey persist loadError w] by auto
  then show ?thesis
    by (auto simp: getUserPublicKey_def getUserOneTimeKeys_def plumbing)
qed

theorem key_export_rejects_iff_no_module_witness:
  "trace (getUserPublicKey (simpleCrypto []) (newModule emptyDb Map.empty)) =
     [Submit cryptoThread, Settle (reject ''user has not been initialized'')]
   \<and> trace (getUserOneTimeKeys (simpleCrypto []) (newModule emptyDb Map.empty)) =
     [Submit cryptoThread, Settle (reject ''user has not been initialized'')]
   \<and> settlementsOf (trace (getUserPublicKey (simpleCrypto [])
        (initializeCryptoAccount (simpleExecutor []) (simpleCrypto []) ''secret'' ''u1''
           (newModule emptyDb Map.empty)))) =
     [resolve JSUndefined, resolve (JSString ''identity keys of account:u1:secret'')]"
proof -
  have evaluated:
    "settlementsOf (trace (getUserPublicKey (simpleCrypto [])
        (initializeCryptoAccount (simpleExecutor []) (simpleCrypto []) ''secret'' ''u1''
           (newModule emptyDb Map.empty)))) =
     [resolve JSUndefined, resolve (JSString ''identity keys of account:u1:secret'')]"
    "cryptoModule (newModule emptyDb Map.empty) = None"
    "trace (newModule emptyDb Map.empty) = []"
    by code_simp+
  from evaluated
    key_export_rejects_iff_no_module [of "newModule emptyDb Map.empty" "simpleCrypto []"]
  show ?thesis by simp
qed

text \<open>
  C3 as stated fails. The first bootstrap on an empty store whose
  \<^verbatim>\<open>storeOlmPersistData\<close> throws: the promise of \<^verbatim>\<open>initializeCryptoAccount\<close> is rejected
  and no account is persisted, so the bootstrap has not reached Ready; yet both exports,
  called next, resolve with keys of the identity that was constructed.
\<close>

theorem keys_exported_without_persistence_counterexample:
  "settlementsOf (trace (initializeCryptoAccount (simpleExecutor [''storeOlmPersistData''])
       (simpleCrypto []) ''secret'' ''u1'' (newModule emptyDb Map.empty))) =
     [reject ''storeOlmPersistData failed'']
   \<and> db_olm_account (database (initializeCryptoAccount
       (simpleExecutor [''storeOlmPersistData''])
       (simpleCrypto []) ''secret'' ''u1'' (newModule emptyDb Map.empty))) = None
   \<and> settlementsOf (trace (getUserPublicKey (simpleCrypto [])
        ((initializeCryptoAccount (simpleExecutor [''storeOlmPersistData''])
           (simpleCrypto []) ''secret'' ''u1'' (newModule emptyDb Map.empty))
         \<lparr>trace := []\<rparr>))) =
     [resolve (JSString ''identity keys of account:u1:secret'')]
   \<and> settlementsOf (trace (getUserOneTimeKeys (simpleCrypto [])
        ((initializeCryptoAccount (simpleExecutor [''storeOlmPersistData''])
           (simpleCrypto []) ''secret'' ''u1'' (newModule emptyDb Map.empty))
         \<lparr>trace := []\<rparr>))) =
     [resolve (JSString ''one-time keys of account:u1:secret'')]"
  by code_simp

text \<open>
  C4, evaluated where the code departs from it. First: a store that holds a persisted
  account and whose \<^verbatim>\<open>getOlmPersistAccountData\<close> throws a store error. The first task
  catches it into its \<^verbatim>\<open>error\<close>, but the crypto task tests an \<^verbatim>\<open>error\<close> of its own:
  the bootstrap goes on with an empty \<^verbatim>\<open>persist\<close>, constructs a fresh identity, stores it
  over the persisted one and resolves. Second: the read of the sessions throws; the bootstrap
  restores from the account alone and resolves. Third: \<^verbatim>\<open>restoreFromB64\<close> throws; nothing
  catches it and the promise is never settled.
\<close>

theorem load_failure_dropped_evaluation:
  "trace (initializeCryptoAccount (simpleExecutor [''getOlmPersistAccountData''])
       (simpleCrypto []) ''fresh'' ''u1''
       (newModule (emptyDb\<lparr>db_olm_account := Some ''persisted account''\<rparr>)
          [''cryptoAccountDataKey'' \<mapsto> ''secret''])) =
     [SecureGet ''cryptoAccountDataKey'' (Some ''secret''),
      Submit databaseThread,
      Store call_getOlmPersistAccountData (Some (system_error ''getOlmPersistAccountData failed'')),
      Submit cryptoThread,
      Crypto (call_CryptoModule ''u1'' ''secret'' emptyPersist) None,
      Crypto (call_storeAsB64 ''secret'') None,
      Submit databaseThread,
      Store (call_storeOlmPersistData \<lparr>account = ''account:u1:secret'', sessions = []\<rparr>) None,
      Settle (resolve JSUndefined)]
   \<and> db_olm_account (database (initializeCryptoAccount
       (simpleExecutor [''getOlmPersistAccountData''])
       (simpleCrypto []) ''fresh'' ''u1''
       (newModule (emptyDb\<lparr>db_olm_account := Some ''persisted account''\<rparr>)
          [''cryptoAccountDataKey'' \<mapsto> ''secret'']))) = Some ''account:u1:secret''
   \<and> trace (initializeCryptoAccount (simpleExecutor [''getOlmPersistSessionsData''])
       (simpleCrypto []) ''fresh'' ''u1''
       (newModule (emptyDb\<lparr>db_olm_account := Some ''persisted account''\<rparr>)
          [''cryptoAccountDataKey'' \<mapsto> ''secret''])) =
     [SecureGet ''cryptoAccountDataKey'' (Some ''secret''),
      Submit databaseThread,
      Store call_getOlmPersistAccountData None,
      Store call_getOlmPersistSessionsData
        (Some (system_error ''getOlmPersistSessionsData failed'')),
      Submit cryptoThread,
      Crypto (call_CryptoModule ''u1'' ''secret''
                \<lparr>account = ''persisted account'', sessions = []\<rparr>) None,
      Crypto (call_restoreFromB64 ''secret''
                \<lparr>account = ''persisted account'', sessions = []\<rparr>) None,
      Settle (resolve JSUndefined)]
   \<and> trace (initializeCryptoAccount (simpleExecutor [])
       (simpleCrypto [''restoreFromB64'']) ''fresh'' ''u1''
       (newModule (emptyDb\<lparr>db_olm_account := Some ''persisted account''\<rparr>)
          [''cryptoAccountDataKey'' \<mapsto> ''secret''])) =
     [SecureGet ''cryptoAccountDataKey'' (Some ''secret''),
      Submit databaseThread,
      Store call_getOlmPersistAccountData None,
      Store call_getOlmPersistSessionsData None,
      Submit cryptoThread,
      Crypto (call_CryptoModule ''u1'' ''secret''
                \<lparr>account = ''persisted account'', sessions = []\<rparr>) None,
      Crypto (call_restoreFromB64 ''secret''
                \<lparr>account = ''persisted account'', sessions = []\<rparr>)
        (Some (runtime_error ''restoreFromB64 failed'')),
      Uncaught (runtime_error ''restoreFromB64 failed'')]"
  by code_simp

subsection \<open>Bootstrap after a restart\<close>

lemma secureStoreCallsOf_append [simp]:
  "secureStoreCallsOf (xs @ ys) = secureStoreCallsOf xs @ secureStoreCallsOf ys"
  by (induction xs) simp_all

lemma account_insertSessions [simp]:
  "account (insertSessions sessionsData persist) = account persist"
  by (induction sessionsData arbitrary: persist) simp_all

lemma storeNewPersist_calls:
  "\<exists>new r. trace (storeNewPersist qe newPersist w) = trace w @ new
     \<and> cryptoCallsOf new = [] \<and> secureStoreCallsOf new = []
     \<and> storeCallsOf new = [(call_storeOlmPersistData newPersist, r)]
     \<and> (r = None \<longrightarrow>
          (\<exists>db'. qe_storeOlmPersistData qe newPersist (database w) = (Inr (), db')
                 \<and> database (storeNewPersist qe newPersist w) = db'))"
  by (auto simp: storeNewPersist_def plumbing split: prod.splits sum.splits exception.splits)

lemma cryptoTask_frame:
  "secureStore (cryptoTask qe cl userId secretKey persist loadError w) = secureStore w"
  "secureStoreAccountDataKey (cryptoTask qe cl userId secretKey persist loadError w)
     = secureStoreAccountDataKey w"
  by (auto simp: cryptoTask_def plumbing storeNewPersist_frame
      split: prod.splits sum.splits exception.splits)

lemma cryptoTask_fresh:
  assumes "isEmpty persist"
  shows "\<exists>new. trace (cryptoTask qe cl userId secretKey persist loadError w) = trace w @ new
     \<and> secureStoreCallsOf new = []
     \<and> (\<forall>p. (call_storeOlmPersistData p, None) \<in> set (storeCallsOf new) \<longrightarrow>
           (\<exists>db db'. qe_storeOlmPersistData qe p db = (Inr (), db')
              \<and> database (cryptoTask qe cl userId secretKey persist loadError w) = db')
           \<and> (call_CryptoModule userId secretKey persist, None) \<in> set (cryptoCallsOf new))"
proof (cases "cm_CryptoModule cl userId secretKey persist")
  case (Inl e)
  then show ?thesis
    by (simp add: cryptoTask_def plumbing)
next
  case (Inr m)
  obtain x m' where ser: "cm_storeAsB64 cl secretKey m = (x, m')"
    by (cases "cm_storeAsB64 cl secretKey m")
  show ?thesis
  proof (cases x)
    case (Inl e)
    with Inr assms ser show ?thesis
      by (simp add: cryptoTask_def plumbing)
  next
    case newPersist: (Inr newPersist)
    define w3 where "w3 =
      emit (Submit databaseThread)
        (emit (Crypto (call_storeAsB64 secretKey) None)
          (emit (Crypto (call_CryptoModule userId secretKey persist) None) w
             \<lparr>cryptoModule := Some m, cryptoModule := Some m'\<rparr>))"
    have run: "cryptoTask qe cl userId secretKey persist loadError w =
                 storeNewPersist qe newPersist w3"
      using Inr assms ser newPersist by (simp add: cryptoTask_def plumbing w3_def)
    have pre: "trace w3 = trace w @ [Crypto (call_CryptoModule userId secretKey persist) None,
                 Crypto (call_storeAsB64 secretKey) None, Submit databaseThread]"
      by (simp add: w3_def emit_def)
    from storeNewPersist_calls [of qe newPersist w3] obtain new r where new:
      "trace (storeNewPersist qe newPersist w3) = trace w3 @ new"
      "cryptoCallsOf new = []" "secureStoreCallsOf new = []"
      "storeCallsOf new = [(call_storeOlmPersistData newPersist, r)]"
      "r = None \<longrightarrow>
          (\<exists>db'. qe_storeOlmPersistData qe newPersist (database w3) = (Inr (), db')
                 \<and> database (storeNewPersist qe newPersist w3) = db')"
      by blast
    let ?new = "[Crypto (call_CryptoModule userId secretKey persist) None,
                 Crypto (call_storeAsB64 secretKey) None, Submit databaseThread] @ new"
    have "trace (cryptoTask qe cl userId secretKey persist loadError w) = trace w @ ?new"
      using run new(1) pre by simp
    moreover have "secureStoreCallsOf ?new = []"
      using new(3) by simp
    moreover have "\<forall>p. (call_storeOlmPersistData p, None) \<in> set (storeCallsOf ?new) \<longrightarrow>
           (\<exists>db db'. qe_storeOlmPersistData qe p db = (Inr (), db')
              \<and> database (cryptoTask qe cl userId secretKey persist loadError w) = db')
           \<and> (call_CryptoModule userId secretKey persist, None) \<in> set (cryptoCallsOf ?new)"
      using new(4,5) run by auto
    ultimately show ?thesis by blast
  qed
qed

lemma cryptoTask_restore:
  assumes "\<not> isEmpty persist"
  shows "\<exists>new. trace (cryptoTask qe cl userId secretKey persist loadError w) = trace w @ new
     \<and> secureStoreCallsOf new = [] \<and> storeCallsOf new = []
     \<and> database (cryptoTask qe cl userId secretKey persist loadError w) = database w
     \<and> (\<forall>(c, r) \<in> set (cryptoCallsOf new).
           c = call_CryptoModule userId secretKey persist
           \<or> c = call_restoreFromB64 secretKey persist)
     \<and> (\<forall>m. cm_CryptoModule cl userId secretKey persist = Inr m \<longrightarrow>
           map fst (cryptoCallsOf new) =
             [call_CryptoModule userId secretKey persist,
              call_restoreFromB64 secretKey persist])"
  using assms
  by (auto simp: cryptoTask_def plumbing split: prod.splits sum.splits)

lemma loadPersist_calls:
  assumes "loadPersist qe w = ((ex, persist), w1)"
  shows "\<exists>pre. trace w1 = trace w @ pre
     \<and> secureStore w1 = secureStore w
     \<and> secureStoreAccountDataKey w1 = secureStoreAccountDataKey w
     \<and> secureStoreCallsOf pre = [] \<and> cryptoCallsOf pre = []
     \<and> (\<forall>(c, r) \<in> set (storeCallsOf pre).
           c = call_getOlmPersistAccountData \<or> c = call_getOlmPersistSessionsData)
     \<and> (\<forall>a. fst (qe_getOlmPersistAccountData qe (database w)) = Inr (Some a) \<longrightarrow>
           account persist = a)
     \<and> (persist = emptyPersist \<or> (\<exists>a. account persist = a
           \<and> fst (qe_getOlmPersistAccountData qe (database w)) = Inr (Some a)))"
  using assms
  by (auto simp: loadPersist_def plumbing emptyPersist_def
      split: prod.splits sum.splits option.splits)

lemma cryptoTask_restored:
  assumes "\<not> isEmpty persist"
  shows "\<exists>new. trace (cryptoTask qe cl userId secretKey persist loadError w) = trace w @ new
     \<and> ((\<forall>(c, r) \<in> set (cryptoCallsOf new). r = None) \<longrightarrow>
           map fst (cryptoCallsOf new) =
             [call_CryptoModule userId secretKey persist,
              call_restoreFromB64 secretKey persist]
           \<and> settlementsOf new = [resolve JSUndefined])"
  using assms
  by (auto simp: cryptoTask_def plumbing split: prod.splits sum.splits)

lemma loadTask_frame:
  "secureStore (loadTask qe cl userId secretKey w) = secureStore w"
  "secureStoreAccountDataKey (loadTask qe cl userId secretKey w) = secureStoreAccountDataKey w"
proof -
  obtain ex persist w1 where load: "loadPersist qe w = ((ex, persist), w1)"
    by (metis surj_pair)
  from loadPersist_calls [OF load] have "secureStore w1 = secureStore w"
    "secureStoreAccountDataKey w1 = secureStoreAccountDataKey w"
    by auto
  with load show "secureStore (loadTask qe cl userId secretKey w) = secureStore w"
    "secureStoreAccountDataKey (loadTask qe cl userId secretKey w) = secureStoreAccountDataKey w"
    by (auto simp: loadTask_def cryptoTask_frame emit_def
        split: option.splits exception.splits)
qed

text \<open>A first task whose run stored \<open>p\<close>: the store took it, and a module was constructed.\<close>

lemma loadTask_persisted:
  "\<exists>new. trace (loadTask qe cl userId secretKey w) = trace w @ new
     \<and> secureStoreCallsOf new = []
     \<and> (\<forall>p. (call_storeOlmPersistData p, None) \<in> set (storeCallsOf new) \<longrightarrow>
           (\<exists>db db'. qe_storeOlmPersistData qe p db = (Inr (), db')
              \<and> database (loadTask qe cl userId secretKey w) = db')
           \<and> (\<exists>persist. (call_CryptoModule userId secretKey persist, None)
                 \<in> set (cryptoCallsOf new)))"
proof -
  obtain ex persist w1 where load: "loadPersist qe w = ((ex, persist), w1)"
    by (metis surj_pair)
  from loadPersist_calls [OF load] obtain pre where pre:
    "trace w1 = trace w @ pre" "secureStoreCallsOf pre = []" "cryptoCallsOf pre = []"
    "\<forall>(c, r) \<in> set (storeCallsOf pre).
       c = call_getOlmPersistAccountData \<or> c = call_getOlmPersistSessionsData"
    by blast
  then have gets: "(call_storeOlmPersistData p, None) \<notin> set (storeCallsOf pre)" for p
    by auto
  have handed: ?thesis
    if run: "loadTask qe cl userId secretKey w =
               cryptoTask qe cl userId secretKey persist loadError
                 (emit (Submit cryptoThread) w1)" for loadError
  proof (cases "isEmpty persist")
    case True
    from cryptoTask_fresh [OF True, of qe cl userId secretKey loadError
        "emit (Submit cryptoThread) w1"]
    obtain new where new:
      "trace (cryptoTask qe cl userId secretKey persist loadError
                (emit (Submit cryptoThread) w1))
         = trace (emit (Submit cryptoThread) w1) @ new"
      "secureStoreCallsOf new = []"
      "\<forall>p. (call_storeOlmPersistData p, None) \<in> set (storeCallsOf new) \<longrightarrow>
           (\<exists>db db'. qe_storeOlmPersistData qe p db = (Inr (), db')
              \<and> database (cryptoTask qe cl userId secretKey persist loadError
                            (emit (Submit cryptoThread) w1)) = db')
           \<and> (call_CryptoModule userId secretKey persist, None) \<in> set (cryptoCallsOf new)"
      by blast
    let ?new = "pre @ [Submit cryptoThread] @ new"
    have "trace (loadTask qe cl userId secretKey w) = trace w @ ?new"
      using run new(1) pre(1) by (simp add: emit_def)
    moreover have "secureStoreCallsOf ?new = []"
      using pre(2) new(2) by simp
    moreover have "\<forall>p. (call_storeOlmPersistData p, None) \<in> set (storeCallsOf ?new) \<longrightarrow>
           (\<exists>db db'. qe_storeOlmPersistData qe p db = (Inr (), db')
              \<and> database (loadTask qe cl userId secretKey w) = db')
           \<and> (\<exists>persist. (call_CryptoModule userId secretKey persist, None)
                 \<in> set (cryptoCallsOf ?new))"
    proof (intro allI impI)
      fix p
      assume "(call_storeOlmPersistData p, None) \<in> set (storeCallsOf ?new)"
      with gets [of p] have "(call_storeOlmPersistData p, None) \<in> set (storeCallsOf new)"
        by simp
      with new(3) have
        "\<exists>db db'. qe_storeOlmPersistData qe p db = (Inr (), db')
              \<and> database (cryptoTask qe cl userId secretKey persist loadError
                            (emit (Submit cryptoThread) w1)) = db'"
        and "(call_CryptoModule userId secretKey persist, None) \<in> set (cryptoCallsOf new)"
        by blast+
      then show "(\<exists>db db'. qe_storeOlmPersistData qe p db = (Inr (), db')
              \<and> database (loadTask qe cl userId secretKey w) = db')
           \<and> (\<exists>persist. (call_CryptoModule userId secretKey persist, None)
                 \<in> set (cryptoCallsOf ?new))"
        unfolding run by auto
    qed
    ultimately show ?thesis
      by (intro exI [of _ ?new]) simp
  next
    case False
    from cryptoTask_restore [OF False, of qe cl userId secretKey loadError
        "emit (Submit cryptoThread) w1"]
    obtain new where new:
      "trace (cryptoTask qe cl userId secretKey persist loadError
                (emit (Submit cryptoThread) w1))
         = trace (emit (Submit cryptoThread) w1) @ new"
      "secureStoreCallsOf new = []" "storeCallsOf new = []"
      by blast
    let ?new = "pre @ [Submit cryptoThread] @ new"
    have "trace (loadTask qe cl userId secretKey w) = trace w @ ?new"
      using run new(1) pre(1) by (simp add: emit_def)
    moreover have "secureStoreCallsOf ?new = []"
      using pre(2) new(2) by simp
    moreover have "(call_storeOlmPersistData p, None) \<notin> set (storeCallsOf ?new)" for p
      using new(3) gets by simp
    ultimately show ?thesis
      by (intro exI [of _ ?new]) simp
  qed
  show ?thesis
  proof (cases ex)
    case None
    with load handed [of "[]"] show ?thesis by (simp add: loadTask_def)
  next
    case (Some e)
    show ?thesis
    proof (cases "\<exists>what. e = system_error what")
      case True
      then obtain what where "e = system_error what" by blast
      with Some load handed [of what] show ?thesis by (simp add: loadTask_def)
    next
      case False
      with Some load have "trace (loadTask qe cl userId secretKey w) = trace w @ pre @ [Uncaught e]"
        using pre(1) by (cases e) (simp_all add: loadTask_def emit_def)
      moreover have "secureStoreCallsOf (pre @ [Uncaught e]) = []"
        using pre(2) by simp
      moreover have "(call_storeOlmPersistData p, None) \<notin> set (storeCallsOf (pre @ [Uncaught e]))"
        for p using gets by simp
      ultimately show ?thesis
        by (intro exI [of _ "pre @ [Uncaught e]"]) simp
    qed
  qed
qed

text \<open>
  What the first task leaves in \<^verbatim>\<open>persist\<close> when it finds an account: the account, and
  the sessions the store returns, entered one by one; the account alone when the read of
  the sessions throws.
\<close>

lemma loadPersist_sessions:
  assumes "loadPersist qe w = ((ex, persist), w1)"
    and "fst (qe_getOlmPersistAccountData qe (database w)) = Inr (Some a)"
  shows "persist =
         (case fst (qe_getOlmPersistSessionsData qe
                          (snd (qe_getOlmPersistAccountData qe (database w)))) of
            Inl e \<Rightarrow> emptyPersist\<lparr>account := a\<rparr>
          | Inr sessionsData \<Rightarrow> insertSessions sessionsData (emptyPersist\<lparr>account := a\<rparr>))"
  using assms
  by (auto simp: loadPersist_def plumbing split: prod.splits sum.splits option.splits)

text \<open>A first task that finds a non-empty account in the store.\<close>

lemma loadTask_restart:
  assumes "fst (qe_getOlmPersistAccountData qe (database w)) = Inr (Some a)" and "a \<noteq> []"
  shows "\<exists>new persist. trace (loadTask qe cl userId secretKey w) = trace w @ new
     \<and> account persist = a
     \<and> secureStoreCallsOf new = []
     \<and> (\<forall>(c, r) \<in> set (storeCallsOf new).
           c = call_getOlmPersistAccountData \<or> c = call_getOlmPersistSessionsData)
     \<and> (\<forall>(c, r) \<in> set (cryptoCallsOf new).
           c = call_CryptoModule userId secretKey persist
           \<or> c = call_restoreFromB64 secretKey persist)
     \<and> (onlyStoreErrors new \<longrightarrow>
           map fst (cryptoCallsOf new) =
             [call_CryptoModule userId secretKey persist,
              call_restoreFromB64 secretKey persist]
           \<and> settlementsOf new = [resolve JSUndefined])
     \<and> persist =
         (case fst (qe_getOlmPersistSessionsData qe
                          (snd (qe_getOlmPersistAccountData qe (database w)))) of
            Inl e \<Rightarrow> emptyPersist\<lparr>account := a\<rparr>
          | Inr sessionsData \<Rightarrow> insertSessions sessionsData (emptyPersist\<lparr>account := a\<rparr>))"
proof -
  obtain ex persist w1 where load: "loadPersist qe w = ((ex, persist), w1)"
    by (metis surj_pair)
  note sess = loadPersist_sessions [OF load assms(1)]
  from loadPersist_calls [OF load] assms(1) obtain pre where pre:
    "trace w1 = trace w @ pre" "secureStoreCallsOf pre = []" "cryptoCallsOf pre = []"
    "\<forall>(c, r) \<in> set (storeCallsOf pre).
       c = call_getOlmPersistAccountData \<or> c = call_getOlmPersistSessionsData"
    "account persist = a"
    by blast
  from loadPersist_events [OF load] pre(1) have quiet: "settlementsOf pre = []"
    and thrown_by_store: "\<forall>e. ex = Some e \<longrightarrow> (\<exists>c. (c, Some e) \<in> set (storeCallsOf pre))"
    by auto
  from pre(5) assms(2) have nonempty: "\<not> isEmpty persist"
    by (simp add: isEmpty_def)
  have handed: ?thesis
    if run: "loadTask qe cl userId secretKey w =
               cryptoTask qe cl userId secretKey persist loadError
                 (emit (Submit cryptoThread) w1)" for loadError
  proof -
    from cryptoTask_restore [OF nonempty, of qe cl userId secretKey loadError
        "emit (Submit cryptoThread) w1"]
    obtain new where new:
      "trace (cryptoTask qe cl userId secretKey persist loadError
                (emit (Submit cryptoThread) w1))
         = trace (emit (Submit cryptoThread) w1) @ new"
      "secureStoreCallsOf new = []" "storeCallsOf new = []"
      "\<forall>(c, r) \<in> set (cryptoCallsOf new).
           c = call_CryptoModule userId secretKey persist
           \<or> c = call_restoreFromB64 secretKey persist"
      by blast
    from cryptoTask_restored [OF nonempty, of qe cl userId secretKey loadError
        "emit (Submit cryptoThread) w1"] new(1)
    have restored: "(\<forall>(c, r) \<in> set (cryptoCallsOf new). r = None) \<longrightarrow>
           map fst (cryptoCallsOf new) =
             [call_CryptoModule userId secretKey persist,
              call_restoreFromB64 secretKey persist]
           \<and> settlementsOf new = [resolve JSUndefined]"
      by auto
    let ?new = "pre @ [Submit cryptoThread] @ new"
    have "trace (loadTask qe cl userId secretKey w) = trace w @ ?new"
      using run new(1) pre(1) by (simp add: emit_def)
    moreover have "secureStoreCallsOf ?new = []"
      using pre(2) new(2) by simp
    moreover have "\<forall>(c, r) \<in> set (storeCallsOf ?new).
           c = call_getOlmPersistAccountData \<or> c = call_getOlmPersistSessionsData"
      using pre(4) new(3) by simp
    moreover have "\<forall>(c, r) \<in> set (cryptoCallsOf ?new).
           c = call_CryptoModule userId secretKey persist
           \<or> c = call_restoreFromB64 secretKey persist"
      using pre(3) new(4) by simp
    moreover have "onlyStoreErrors ?new \<longrightarrow>
           map fst (cryptoCallsOf ?new) =
             [call_CryptoModule userId secretKey persist,
              call_restoreFromB64 secretKey persist]
           \<and> settlementsOf ?new = [resolve JSUndefined]"
      using restored pre(3) quiet by (simp add: onlyStoreErrors_def)
    ultimately show ?thesis using pre(5) sess
      by (intro exI [of _ ?new] exI [of _ persist]) simp
  qed
  show ?thesis
  proof (cases ex)
    case None
    with load handed [of "[]"] show ?thesis by (simp add: loadTask_def)
  next
    case (Some e)
    show ?thesis
    proof (cases "\<exists>what. e = system_error what")
      case True
      then obtain what where "e = system_error what" by blast
      with Some load handed [of what] show ?thesis by (simp add: loadTask_def)
    next
      case False
      with Some load have run: "trace (loadTask qe cl userId secretKey w) = trace w @ pre @ [Uncaught e]"
        using pre(1) by (cases e) (simp_all add: loadTask_def emit_def)
      have "\<not> onlyStoreErrors (pre @ [Uncaught e])"
        using thrown_by_store Some False by (auto simp: onlyStoreErrors_def)
      with run pre sess show ?thesis
        by (intro exI [of _ "pre @ [Uncaught e]"] exI [of _ persist]) simp
    qed
  qed
qed

lemma readOrGenerateSecretKey_key:
  assumes "readOrGenerateSecretKey generated w = (k, w1)"
  shows "secureStore w1 (secureStoreAccountDataKey w) = Some k"
    and "secureStoreAccountDataKey w1 = secureStoreAccountDataKey w"
    and "database w1 = database w"
    and "secureStore w (secureStoreAccountDataKey w) = None \<longrightarrow> k = generated"
    and "\<exists>pre. trace w1 = trace w @ pre \<and> storeCallsOf pre = [] \<and> cryptoCallsOf pre = []"
  using assms
  by (auto simp: readOrGenerateSecretKey_def plumbing split: option.splits)

lemma initializeCryptoAccount_persisted:
  assumes "trace (initializeCryptoAccount qe cl generated userId w) = trace w @ new"
    and "(call_storeOlmPersistData p, None) \<in> set (storeCallsOf new)"
  shows "\<exists>k. secureStore (initializeCryptoAccount qe cl generated userId w)
                (secureStoreAccountDataKey w) = Some k
     \<and> secureStoreAccountDataKey (initializeCryptoAccount qe cl generated userId w)
         = secureStoreAccountDataKey w
     \<and> (secureStore w (secureStoreAccountDataKey w) = None \<longrightarrow> k = generated)
     \<and> (\<exists>db db'. qe_storeOlmPersistData qe p db = (Inr (), db')
           \<and> database (initializeCryptoAccount qe cl generated userId w) = db')
     \<and> (\<exists>persist. (call_CryptoModule userId k persist, None) \<in> set (cryptoCallsOf new))"
proof -
  obtain k w1 where key: "readOrGenerateSecretKey generated w = (k, w1)"
    by (cases "readOrGenerateSecretKey generated w")
  note pre = readOrGenerateSecretKey_key(1,2,4) [OF key]
  from readOrGenerateSecretKey_key(5) [OF key] obtain pre where
    "trace w1 = trace w @ pre" "storeCallsOf pre = []" "cryptoCallsOf pre = []"
    by blast
  note pre = pre this
  let ?w2 = "emit (Submit databaseThread) w1"
  have run: "initializeCryptoAccount qe cl generated userId w = loadTask qe cl userId k ?w2"
    using key by (simp add: initializeCryptoAccount_def)
  from loadTask_persisted [of qe cl userId k ?w2] obtain rest where rest:
    "trace (loadTask qe cl userId k ?w2) = trace ?w2 @ rest"
    "\<forall>p. (call_storeOlmPersistData p, None) \<in> set (storeCallsOf rest) \<longrightarrow>
           (\<exists>db db'. qe_storeOlmPersistData qe p db = (Inr (), db')
              \<and> database (loadTask qe cl userId k ?w2) = db')
           \<and> (\<exists>persist. (call_CryptoModule userId k persist, None)
                 \<in> set (cryptoCallsOf rest))"
    by blast
  have new: "new = pre @ [Submit databaseThread] @ rest"
    using assms(1) rest(1) pre(4) unfolding run by (simp add: emit_def)
  with assms(2) pre(5) have "(call_storeOlmPersistData p, None) \<in> set (storeCallsOf rest)"
    by simp
  with rest(2) have stored:
    "\<exists>db db'. qe_storeOlmPersistData qe p db = (Inr (), db')
              \<and> database (loadTask qe cl userId k ?w2) = db'"
    and "\<exists>persist. (call_CryptoModule userId k persist, None) \<in> set (cryptoCallsOf rest)"
    by blast+
  then obtain persist where "(call_CryptoModule userId k persist, None) \<in> set (cryptoCallsOf rest)"
    by blast
  then have constructed:
    "\<exists>persist. (call_CryptoModule userId k persist, None) \<in> set (cryptoCallsOf new)"
    unfolding new by (intro exI [of _ persist]) simp
  have frame:
    "secureStore (loadTask qe cl userId k ?w2) (secureStoreAccountDataKey w) = Some k"
    "secureStoreAccountDataKey (loadTask qe cl userId k ?w2) = secureStoreAccountDataKey w"
    using pre(1,2) by (simp_all add: loadTask_frame emit_def)
  show ?thesis
    unfolding run
    by (intro exI [of _ k] conjI) (fact frame stored(1) constructed pre(3))+
qed

lemma initializeCryptoAccount_restart:
  assumes "secureStore w (secureStoreAccountDataKey w) = Some k"
    and "fst (qe_getOlmPersistAccountData qe (database w)) = Inr (Some a)" and "a \<noteq> []"
  shows "\<exists>new persist.
       trace (initializeCryptoAccount qe cl generated userId w) = trace w @ new
     \<and> secureStore (initializeCryptoAccount qe cl generated userId w) = secureStore w
     \<and> account persist = a
     \<and> secureStoreCallsOf new = [SecureGet (secureStoreAccountDataKey w) (Some k)]
     \<and> (\<forall>(c, r) \<in> set (storeCallsOf new).
           c = call_getOlmPersistAccountData \<or> c = call_getOlmPersistSessionsData)
     \<and> (\<forall>(c, r) \<in> set (cryptoCallsOf new).
           c = call_CryptoModule userId k persist \<or> c = call_restoreFromB64 k persist)
     \<and> (onlyStoreErrors new \<longrightarrow>
           map fst (cryptoCallsOf new) =
             [call_CryptoModule userId k persist, call_restoreFromB64 k persist]
           \<and> settlementsOf new = [resolve JSUndefined])
     \<and> persist =
         (case fst (qe_getOlmPersistSessionsData qe
                          (snd (qe_getOlmPersistAccountData qe (database w)))) of
            Inl e \<Rightarrow> emptyPersist\<lparr>account := a\<rparr>
          | Inr sessionsData \<Rightarrow> insertSessions sessionsData (emptyPersist\<lparr>account := a\<rparr>))"
proof -
  let ?w1 = "emit (SecureGet (secureStoreAccountDataKey w) (Some k)) w"
  let ?w2 = "emit (Submit databaseThread) ?w1"
  have run: "initializeCryptoAccount qe cl generated userId w = loadTask qe cl userId k ?w2"
    using assms(1) by (simp add: initializeCryptoAccount_def readOrGenerateSecretKey_def Let_def)
  have "fst (qe_getOlmPersistAccountData qe (database ?w2)) = Inr (Some a)"
    using assms(2) by (simp add: emit_def)
  from loadTask_restart [OF this assms(3), of cl userId k] obtain rest persist where all:
    "trace (loadTask qe cl userId k ?w2) = trace ?w2 @ rest
     \<and> account persist = a
     \<and> secureStoreCallsOf rest = []
     \<and> (\<forall>(c, r) \<in> set (storeCallsOf rest).
           c = call_getOlmPersistAccountData \<or> c = call_getOlmPersistSessionsData)
     \<and> (\<forall>(c, r) \<in> set (cryptoCallsOf rest).
           c = call_CryptoModule userId k persist \<or> c = call_restoreFromB64 k persist)
     \<and> (onlyStoreErrors rest \<longrightarrow>
           map fst (cryptoCallsOf rest) =
             [call_CryptoModule userId k persist, call_restoreFromB64 k persist]
           \<and> settlementsOf rest = [resolve JSUndefined])
     \<and> persist =
         (case fst (qe_getOlmPersistSessionsData qe
                          (snd (qe_getOlmPersistAccountData qe (database ?w2)))) of
            Inl e \<Rightarrow> emptyPersist\<lparr>account := a\<rparr>
          | Inr sessionsData \<Rightarrow> insertSessions sessionsData (emptyPersist\<lparr>account := a\<rparr>))"
    by (elim exE) (erule that)
  note rest = all [THEN conjunct1] all [THEN conjunct2, THEN conjunct1]
    all [THEN conjunct2, THEN conjunct2, THEN conjunct1]
    all [THEN conjunct2, THEN conjunct2, THEN conjunct2, THEN conjunct1]
    all [THEN conjunct2, THEN conjunct2, THEN conjunct2, THEN conjunct2, THEN conjunct1]
    all [THEN conjunct2, THEN conjunct2, THEN conjunct2, THEN conjunct2, THEN conjunct2,
         THEN conjunct1]
    all [THEN conjunct2, THEN conjunct2, THEN conjunct2, THEN conjunct2, THEN conjunct2,
         THEN conjunct2]
  let ?new = "[SecureGet (secureStoreAccountDataKey w) (Some k), Submit databaseThread] @ rest"
  have "trace (initializeCryptoAccount qe cl generated userId w) = trace w @ ?new"
    unfolding run using rest(1) by (simp add: emit_def)
  moreover have "secureStore (initializeCryptoAccount qe cl generated userId w) = secureStore w"
    unfolding run by (simp add: loadTask_frame emit_def)
  moreover have "secureStoreCallsOf ?new = [SecureGet (secureStoreAccountDataKey w) (Some k)]"
    using rest(3) by simp
  moreover have "\<forall>(c, r) \<in> set (storeCallsOf ?new).
           c = call_getOlmPersistAccountData \<or> c = call_getOlmPersistSessionsData"
    using rest(4) by simp
  moreover have "\<forall>(c, r) \<in> set (cryptoCallsOf ?new).
           c = call_CryptoModule userId k persist \<or> c = call_restoreFromB64 k persist"
    using rest(5) by simp
  moreover have "onlyStoreErrors ?new \<longrightarrow>
           map fst (cryptoCallsOf ?new) =
             [call_CryptoModule userId k persist, call_restoreFromB64 k persist]
           \<and> settlementsOf ?new = [resolve JSUndefined]"
    using rest(6) by (simp add: onlyStoreErrors_def)
  moreover have "persist =
         (case fst (qe_getOlmPersistSessionsData qe
                          (snd (qe_getOlmPersistAccountData qe (database w)))) of
            Inl e \<Rightarrow> emptyPersist\<lparr>account := a\<rparr>
          | Inr sessionsData \<Rightarrow> insertSessions sessionsData (emptyPersist\<lparr>account := a\<rparr>))"
    using rest(7) by (simp add: emit_def)
  ultimately show ?thesis using rest(2)
    by (intro exI [of _ ?new] exI [of _ persist]) simp
qed

text \<open>
  The restart when the store can be read. A first run of \<^verbatim>\<open>initializeCryptoAccount\<close>
  that persisted the serialized identity \<open>p\<close>, then a restart (the module object is
  gone; the secure store and the store remain), then a second run for the same user.
  Provided the store hands back the account it was given and the serialized account is not
  empty, the second run reads from the secure store the key \<open>k\<close> that the first run used,
  generates and stores nothing, finds the persisted account of \<open>p\<close> and takes the restore
  path: its only crypto calls are the constructor and \<^verbatim>\<open>restoreFromB64\<close> on that key and
  that persisted state.
\<close>

lemma restart_reads_stored_key_and_restores:
  assumes law: "\<forall>p db db'. qe_storeOlmPersistData qe p db = (Inr (), db') \<longrightarrow>
                  fst (qe_getOlmPersistAccountData qe db') = Inr (Some (account p))"
    and first: "w1 = initializeCryptoAccount qe cl generated1 userId w"
    and events1: "trace w1 = trace w @ new1"
    and stored: "(call_storeOlmPersistData p, None) \<in> set (storeCallsOf new1)"
    and nonempty: "account p \<noteq> []"
    and second: "w2 = initializeCryptoAccount qe cl generated2 userId (w1\<lparr>cryptoModule := None\<rparr>)"
  shows "\<exists>k new2 persist2.
       secureStore w1 (secureStoreAccountDataKey w) = Some k
     \<and> (secureStore w (secureStoreAccountDataKey w) = None \<longrightarrow> k = generated1)
     \<and> (\<exists>persist1. (call_CryptoModule userId k persist1, None) \<in> set (cryptoCallsOf new1))
     \<and> trace w2 = trace w1 @ new2
     \<and> secureStore w2 = secureStore w1
     \<and> secureStoreCallsOf new2 = [SecureGet (secureStoreAccountDataKey w) (Some k)]
     \<and> (\<forall>(c, r) \<in> set (storeCallsOf new2).
           c = call_getOlmPersistAccountData \<or> c = call_getOlmPersistSessionsData)
     \<and> account persist2 = account p
     \<and> (\<forall>(c, r) \<in> set (cryptoCallsOf new2).
           c = call_CryptoModule userId k persist2 \<or> c = call_restoreFromB64 k persist2)
     \<and> (onlyStoreErrors new2 \<longrightarrow>
           map fst (cryptoCallsOf new2) =
             [call_CryptoModule userId k persist2, call_restoreFromB64 k persist2]
           \<and> settlementsOf new2 = [resolve JSUndefined])
     \<and> persist2 =
         (case fst (qe_getOlmPersistSessionsData qe
                          (snd (qe_getOlmPersistAccountData qe (database w1)))) of
            Inl e \<Rightarrow> emptyPersist\<lparr>account := account p\<rparr>
          | Inr sessionsData \<Rightarrow>
              insertSessions sessionsData (emptyPersist\<lparr>account := account p\<rparr>))"
proof -
  from initializeCryptoAccount_persisted [OF events1 [unfolded first] stored]
  obtain k where run1':
    "secureStore (initializeCryptoAccount qe cl generated1 userId w)
       (secureStoreAccountDataKey w) = Some k
     \<and> secureStoreAccountDataKey (initializeCryptoAccount qe cl generated1 userId w)
         = secureStoreAccountDataKey w
     \<and> (secureStore w (secureStoreAccountDataKey w) = None \<longrightarrow> k = generated1)
     \<and> (\<exists>db db'. qe_storeOlmPersistData qe p db = (Inr (), db')
           \<and> database (initializeCryptoAccount qe cl generated1 userId w) = db')
     \<and> (\<exists>persist. (call_CryptoModule userId k persist, None) \<in> set (cryptoCallsOf new1))"
    by (elim exE) (erule that)
  note run1 = run1' [folded first]
  note key1 = run1 [THEN conjunct1]
    and same_name = run1 [THEN conjunct2, THEN conjunct1]
    and generated = run1 [THEN conjunct2, THEN conjunct2, THEN conjunct1]
    and taken = run1 [THEN conjunct2, THEN conjunct2, THEN conjunct2, THEN conjunct1]
    and constructed = run1 [THEN conjunct2, THEN conjunct2, THEN conjunct2, THEN conjunct2]
  let ?restarted = "w1\<lparr>cryptoModule := None\<rparr>"
  from taken law have "fst (qe_getOlmPersistAccountData qe (database w1)) = Inr (Some (account p))"
    by blast
  then have found:
    "fst (qe_getOlmPersistAccountData qe (database ?restarted)) = Inr (Some (account p))"
    by simp
  have key2: "secureStore ?restarted (secureStoreAccountDataKey ?restarted) = Some k"
    using key1 same_name by simp
  from initializeCryptoAccount_restart [OF key2 found nonempty, of cl generated2 userId]
  obtain new2 persist2 where run2'':
    "trace (initializeCryptoAccount qe cl generated2 userId ?restarted)
       = trace ?restarted @ new2
     \<and> secureStore (initializeCryptoAccount qe cl generated2 userId ?restarted)
         = secureStore ?restarted
     \<and> account persist2 = account p
     \<and> secureStoreCallsOf new2 = [SecureGet (secureStoreAccountDataKey ?restarted) (Some k)]
     \<and> (\<forall>(c, r) \<in> set (storeCallsOf new2).
           c = call_getOlmPersistAccountData \<or> c = call_getOlmPersistSessionsData)
     \<and> (\<forall>(c, r) \<in> set (cryptoCallsOf new2).
           c = call_CryptoModule userId k persist2 \<or> c = call_restoreFromB64 k persist2)
     \<and> (onlyStoreErrors new2 \<longrightarrow>
           map fst (cryptoCallsOf new2) =
             [call_CryptoModule userId k persist2, call_restoreFromB64 k persist2]
           \<and> settlementsOf new2 = [resolve JSUndefined])
     \<and> persist2 =
         (case fst (qe_getOlmPersistSessionsData qe
                          (snd (qe_getOlmPersistAccountData qe (database ?restarted)))) of
            Inl e \<Rightarrow> emptyPersist\<lparr>account := account p\<rparr>
          | Inr sessionsData \<Rightarrow>
              insertSessions sessionsData (emptyPersist\<lparr>account := account p\<rparr>))"
    by (elim exE) (erule that)
  note run2 = run2'' [folded second]
  have fields: "trace ?restarted = trace w1" "secureStore ?restarted = secureStore w1"
    "secureStoreAccountDataKey ?restarted = secureStoreAccountDataKey w"
    "database ?restarted = database w1"
    using same_name by simp_all
  from run2 have run2':
    "trace w2 = trace w1 @ new2
     \<and> secureStore w2 = secureStore w1
     \<and> secureStoreCallsOf new2 = [SecureGet (secureStoreAccountDataKey w) (Some k)]
     \<and> (\<forall>(c, r) \<in> set (storeCallsOf new2).
           c = call_getOlmPersistAccountData \<or> c = call_getOlmPersistSessionsData)
     \<and> account persist2 = account p
     \<and> (\<forall>(c, r) \<in> set (cryptoCallsOf new2).
           c = call_CryptoModule userId k persist2 \<or> c = call_restoreFromB64 k persist2)
     \<and> (onlyStoreErrors new2 \<longrightarrow>
           map fst (cryptoCallsOf new2) =
             [call_CryptoModule userId k persist2, call_restoreFromB64 k persist2]
           \<and> settlementsOf new2 = [resolve JSUndefined])
     \<and> persist2 =
         (case fst (qe_getOlmPersistSessionsData qe
                          (snd (qe_getOlmPersistAccountData qe (database w1)))) of
            Inl e \<Rightarrow> emptyPersist\<lparr>account := account p\<rparr>
          | Inr sessionsData \<Rightarrow>
              insertSessions sessionsData (emptyPersist\<lparr>account := account p\<rparr>))"
    unfolding fields by (elim conjE) (intro conjI; assumption)
  show ?thesis
    by (intro exI [of _ k] exI [of _ new2] exI [of _ persist2])
      (rule conjI [OF key1 conjI [OF generated conjI [OF constructed run2']]])
qed

lemma restart_reads_stored_key_and_restores_instance:
  "drop 11 (trace (initializeCryptoAccount (simpleExecutor []) (simpleCrypto []) ''secret2'' ''u1''
      ((initializeCryptoAccount (simpleExecutor []) (simpleCrypto []) ''secret1'' ''u1''
          (newModule emptyDb Map.empty))\<lparr>cryptoModule := None\<rparr>))) =
     [SecureGet ''cryptoAccountDataKey'' (Some ''secret1''),
      Submit databaseThread,
      Store call_getOlmPersistAccountData None,
      Store call_getOlmPersistSessionsData None,
      Submit cryptoThread,
      Crypto (call_CryptoModule ''u1'' ''secret1''
                \<lparr>account = ''account:u1:secret1'', sessions = []\<rparr>) None,
      Crypto (call_restoreFromB64 ''secret1''
                \<lparr>account = ''account:u1:secret1'', sessions = []\<rparr>) None,
      Settle (resolve JSUndefined)]"
proof -
  have law: "\<forall>p db db'. qe_storeOlmPersistData (simpleExecutor []) p db = (Inr (), db') \<longrightarrow>
               fst (qe_getOlmPersistAccountData (simpleExecutor []) db')
                 = Inr (Some (account p))"
    by (auto simp: simpleExecutor_def storeCallOf_def)
  have events1:
    "trace (initializeCryptoAccount (simpleExecutor []) (simpleCrypto []) ''secret1'' ''u1''
              (newModule emptyDb Map.empty))
     = trace (newModule emptyDb Map.empty)
       @ trace (initializeCryptoAccount (simpleExecutor []) (simpleCrypto []) ''secret1'' ''u1''
                  (newModule emptyDb Map.empty))"
    by (simp add: newModule_def)
  have stored:
    "(call_storeOlmPersistData \<lparr>account = ''account:u1:secret1'', sessions = []\<rparr>, None)
       \<in> set (storeCallsOf
             (trace (initializeCryptoAccount (simpleExecutor []) (simpleCrypto []) ''secret1''
                       ''u1'' (newModule emptyDb Map.empty))))"
    by code_simp
  have nonempty: "account \<lparr>account = ''account:u1:secret1'', sessions = []\<rparr> \<noteq> []"
    by simp
  have evaluated:
    "drop 11 (trace (initializeCryptoAccount (simpleExecutor []) (simpleCrypto []) ''secret2''
      ''u1''
      ((initializeCryptoAccount (simpleExecutor []) (simpleCrypto []) ''secret1'' ''u1''
          (newModule emptyDb Map.empty))\<lparr>cryptoModule := None\<rparr>))) =
     [SecureGet ''cryptoAccountDataKey'' (Some ''secret1''),
      Submit databaseThread,
      Store call_getOlmPersistAccountData None,
      Store call_getOlmPersistSessionsData None,
      Submit cryptoThread,
      Crypto (call_CryptoModule ''u1'' ''secret1''
                \<lparr>account = ''account:u1:secret1'', sessions = []\<rparr>) None,
      Crypto (call_restoreFromB64 ''secret1''
                \<lparr>account = ''account:u1:secret1'', sessions = []\<rparr>) None,
      Settle (resolve JSUndefined)]"
    by code_simp
  from evaluated
    restart_reads_stored_key_and_restores [OF law refl events1 stored nonempty refl,
      of "''secret2''"]
  show ?thesis by simp
qed

lemma insertSessions_lookup:
  "map_of (sessions (insertSessions sessionsData persist)) k =
     (case map_of (sessions persist) k of
        Some v \<Rightarrow> Some v
      | None \<Rightarrow> map_of (map (\<lambda>s. (target_user_id s, session_data s)) sessionsData) k)"
  by (induction sessionsData arbitrary: persist) (auto split: option.splits)

text \<open>
  C2, evaluated where the code departs from it. The first run, on an empty store,
  generates and stores the key, constructs a fresh identity, persists it and resolves.
  After the restart the read of the persisted account throws a store error. The second run
  does read the stored key and generates none; but the error caught by its first task is
  never looked at (the crypto task tests an \<^verbatim>\<open>error\<close> of its own, as in C4), so the run
  goes on with an empty \<^verbatim>\<open>persist\<close>: it takes the fresh path, constructs a second
  identity, stores it over the first one and resolves.
\<close>

theorem restart_with_failing_read_evaluation:
  "trace (initializeCryptoAccount unreadableOnceStored (reseededCrypto ''seed1'') ''secret1''
       ''u1'' (newModule emptyDb Map.empty)) =
     [SecureGet ''cryptoAccountDataKey'' None,
      GenerateRandomString 64,
      SecureSet ''cryptoAccountDataKey'' ''secret1'',
      Submit databaseThread,
      Store call_getOlmPersistAccountData None,
      Submit cryptoThread,
      Crypto (call_CryptoModule ''u1'' ''secret1'' emptyPersist) None,
      Crypto (call_storeAsB64 ''secret1'') None,
      Submit databaseThread,
      Store (call_storeOlmPersistData
               \<lparr>account = ''account:u1:secret1:seed1'', sessions = []\<rparr>) None,
      Settle (resolve JSUndefined)]
   \<and> db_olm_account (database (initializeCryptoAccount unreadableOnceStored
       (reseededCrypto ''seed1'') ''secret1'' ''u1'' (newModule emptyDb Map.empty)))
       = Some ''account:u1:secret1:seed1''
   \<and> drop 11 (trace (initializeCryptoAccount unreadableOnceStored (reseededCrypto ''seed2'')
       ''secret2'' ''u1''
       ((initializeCryptoAccount unreadableOnceStored (reseededCrypto ''seed1'') ''secret1''
           ''u1'' (newModule emptyDb Map.empty))\<lparr>cryptoModule := None\<rparr>))) =
     [SecureGet ''cryptoAccountDataKey'' (Some ''secret1''),
      Submit databaseThread,
      Store call_getOlmPersistAccountData (Some (system_error ''disk I/O error'')),
      Submit cryptoThread,
      Crypto (call_CryptoModule ''u1'' ''secret1'' emptyPersist) None,
      Crypto (call_storeAsB64 ''secret1'') None,
      Submit databaseThread,
      Store (call_storeOlmPersistData
               \<lparr>account = ''account:u1:secret1:seed2'', sessions = []\<rparr>) None,
      Settle (resolve JSUndefined)]
   \<and> db_olm_account (database (initializeCryptoAccount unreadableOnceStored
       (reseededCrypto ''seed2'') ''secret2'' ''u1''
       ((initializeCryptoAccount unreadableOnceStored (reseededCrypto ''seed1'') ''secret1''
           ''u1'' (newModule emptyDb Map.empty))\<lparr>cryptoModule := None\<rparr>)))
       = Some ''account:u1:secret1:seed2''"
  by code_simp

end
